theory Spec2Isabelle
  imports Main
begin

section \<open>JavaScript values, errors and promises\<close>

text \<open>
  The providers handle untyped JavaScript values: tokens, parsed JSON bodies and option
  fields may be \<^verbatim>\<open>undefined\<close>, \<^verbatim>\<open>null\<close>, strings, numbers or objects. An
  object is the list of its properties.
\<close>

datatype js =
    JUndefined
  | JNull
  | JBool bool
  | JNum int
  | JNaN
  | JStr string
  | JObj "(string \<times> js) list"

text \<open>A thrown or rejected \<^verbatim>\<open>Error\<close>: its \<^verbatim>\<open>name\<close> and its \<^verbatim>\<open>message\<close>.\<close>

datatype js_error = Error (name: string) (message: string)

text \<open>A settled promise.\<close>

datatype 'a promise = Resolved 'a | Rejected js_error

text \<open>JavaScript truthiness (\<^verbatim>\<open>if (x)\<close>, \<^verbatim>\<open>!x\<close>, \<^verbatim>\<open>!!x\<close>).\<close>

fun truthy :: "js \<Rightarrow> bool" where
  "truthy JUndefined = False"
| "truthy JNull = False"
| "truthy (JBool b) = b"
| "truthy (JNum n) = (n \<noteq> 0)"
| "truthy JNaN = False"
| "truthy (JStr s) = (s \<noteq> [])"
| "truthy (JObj kvs) = True"

text \<open>
  Reading a property \<^verbatim>\<open>x.k\<close>: a TypeError on \<^verbatim>\<open>undefined\<close> and \<^verbatim>\<open>null\<close>,
  the property's value on an object, \<^verbatim>\<open>undefined\<close> when the property is missing or
  \<open>x\<close> is a primitive (none of the names read here is a property of a primitive).
\<close>

fun get_prop :: "js \<Rightarrow> string \<Rightarrow> js_error + js" where
  "get_prop JUndefined k =
     Inl (Error ''TypeError'' (''Cannot read property '' @ k @ '' of undefined''))"
| "get_prop JNull k =
     Inl (Error ''TypeError'' (''Cannot read property '' @ k @ '' of null''))"
| "get_prop (JObj kvs) k = Inr (case map_of kvs k of None \<Rightarrow> JUndefined | Some v \<Rightarrow> v)"
| "get_prop v k = Inr JUndefined"

text \<open>Reading an array element \<^verbatim>\<open>data[i]\<close>: \<^verbatim>\<open>undefined\<close> out of range.\<close>

definition index :: "js list \<Rightarrow> nat \<Rightarrow> js" where
  "index xs i = (if i < length xs then xs ! i else JUndefined)"

text \<open>Decimal and hexadecimal digits, and a number as string conversion prints it.\<close>

definition digit :: "nat \<Rightarrow> char" where
  "digit d = ''0123456789abcdef'' ! (d mod 16)"

fun show_nat :: "nat \<Rightarrow> string" where
  "show_nat n =
     (if n < 10 then [digit n]
      else show_nat (n div 10) @ [digit (n mod 10)])"

declare show_nat.simps [simp del]

definition show_int :: "int \<Rightarrow> string" where
  "show_int i = (if i < 0 then ''-'' @ show_nat (nat (- i)) else show_nat (nat i))"

text \<open>String conversion of a value inside a template literal.\<close>

fun ToString :: "js \<Rightarrow> string" where
  "ToString JUndefined = ''undefined''"
| "ToString JNull = ''null''"
| "ToString (JBool b) = (if b then ''true'' else ''false'')"
| "ToString (JNum n) = show_int n"
| "ToString JNaN = ''NaN''"
| "ToString (JStr s) = s"
| "ToString (JObj kvs) = ''[object Object]''"

subsection \<open>\<^verbatim>\<open>JSON.stringify\<close>\<close>

text \<open>
  The escape of one character inside a JSON string: the quote, the backslash, the five
  short escapes, \<^verbatim>\<open>\u00XX\<close> for the other control characters.
\<close>

definition json_escape :: "char \<Rightarrow> string" where
  "json_escape c =
     (if c = CHR 0x22 then [CHR 0x5C, CHR 0x22]
      else if c = CHR 0x5C then [CHR 0x5C, CHR 0x5C]
      else if c = CHR 0x08 then [CHR 0x5C, CHR ''b'']
      else if c = CHR 0x0C then [CHR 0x5C, CHR ''f'']
      else if c = CHR 0x0A then [CHR 0x5C, CHR ''n'']
      else if c = CHR 0x0D then [CHR 0x5C, CHR ''r'']
      else if c = CHR 0x09 then [CHR 0x5C, CHR ''t'']
      else if (of_char c :: nat) < 32 then
        [CHR 0x5C, CHR ''u'', CHR ''0'', CHR ''0'',
         digit (of_char c div 16), digit (of_char c mod 16)]
      else [c])"

definition QuoteJSONString :: "string \<Rightarrow> string" where
  "QuoteJSONString s = [CHR 0x22] @ concat (map json_escape s) @ [CHR 0x22]"

text \<open>
  The members of an object, serialized: a property whose value serializes to
  \<^verbatim>\<open>undefined\<close> is left out, the others are joined by commas.
\<close>

fun join_members :: "(string \<times> string option) list \<Rightarrow> string" where
  "join_members [] = []"
| "join_members ((k, None) # kvs) = join_members kvs"
| "join_members ((k, Some v) # kvs) =
     (let m = QuoteJSONString k @ '':'' @ v; r = join_members kvs
      in if r = [] then m else m @ '','' @ r)"

primrec JSON_stringify :: "js \<Rightarrow> string option" where
  "JSON_stringify JUndefined = None"
| "JSON_stringify JNull = Some ''null''"
| "JSON_stringify (JBool b) = Some (if b then ''true'' else ''false'')"
| "JSON_stringify (JNum n) = Some (show_int n)"
| "JSON_stringify JNaN = Some ''null''"
| "JSON_stringify (JStr s) = Some (QuoteJSONString s)"
| "JSON_stringify (JObj kvs) =
     Some (''{'' @ join_members (map (map_prod id JSON_stringify) kvs) @ ''}'')"

section \<open>The token provider (class TokenProvider)\<close>

subsection \<open>Module constants\<close>

text \<open>
  The values the module reads from the process configuration when it is loaded
  (\<^verbatim>\<open>Config.get\<close>), and the status code \<^verbatim>\<open>STATUS_CODES.OK\<close> of a module that is
  not part of the sources: all are parameters of the model.
\<close>

record config =
  DEFAULT_VAULT_PORT :: nat
  DEFAULT_VAULT_HOST :: string
  DEFAULT_VAULT_TLS :: bool
  DEFAULT_WARDEN_HOST :: string
  DEFAULT_WARDEN_PORT :: nat
  DEFAULT_WARDEN_PATH :: string
  VAULT_TOKEN_RENEW_INCREMENT :: int
  STATUS_CODES_OK :: nat

definition METADATA_ENDPOINTS :: "string list" where
  "METADATA_ENDPOINTS =
     [''/latest/dynamic/instance-identity/document'',
      ''/latest/dynamic/instance-identity/signature'',
      ''/latest/dynamic/instance-identity/pkcs7'']"

subsection \<open>State\<close>

text \<open>The Vault client: the connection object \<^verbatim>\<open>{endpoint, token}\<close> it was built from.\<close>

record Vault =
  endpoint :: js
  Vault_token :: js

text \<open>The request options of the Warden POST (\<^verbatim>\<open>this._warden\<close>); its
  \<^verbatim>\<open>method\<close> is written \<open>request_method\<close>.\<close>

record warden =
  request_method :: string
  headers :: "string \<rightharpoonup> js"
  hostname :: js
  port :: js
  path :: js

text \<open>
  The constructor's \<^verbatim>\<open>options\<close>: \<^verbatim>\<open>options.vault\<close> with \<^verbatim>\<open>endpoint\<close> and
  \<^verbatim>\<open>client\<close>, \<^verbatim>\<open>options.warden\<close> with \<^verbatim>\<open>host\<close> and \<^verbatim>\<open>port\<close>, and
  \<^verbatim>\<open>options.metadata\<close>, which only the helper \<^verbatim>\<open>metadata\<close> reads. A caller may
  also pass \<^verbatim>\<open>options.warden.path\<close>: the object then has the property, and the
  constructor never reads it.
\<close>

record vault_options =
  opt_endpoint :: js
  opt_client :: "Vault option"

record warden_options =
  opt_host :: js
  opt_port :: js
  opt_path :: js

record options =
  opt_metadata :: js
  opt_vault :: "vault_options option"
  opt_warden :: "warden_options option"

text \<open>
  The provider. \<open>'m\<close> is the metadata client that the helper \<^verbatim>\<open>metadata(opts)\<close> of
  utils/metadata returns; the helper is not part of the sources and is a parameter of the
  constructor. Private members \<^verbatim>\<open>_x\<close> are written \<open>priv_x\<close>.
\<close>

record 'm TokenProvider =
  priv_metadata :: 'm
  priv_client :: Vault
  priv_warden :: warden
  token :: js
  data :: js
  creation_time :: js
  expiration_time :: js

subsection \<open>Constructor\<close>

text \<open>
  \<^verbatim>\<open>checkNotNull\<close> of the library \<^verbatim>\<open>conditional\<close> throws with the given message when
  the reference is \<^verbatim>\<open>null\<close> or \<^verbatim>\<open>undefined\<close>.
\<close>

definition checkNotNull :: "js \<Rightarrow> string \<Rightarrow> js_error + js" where
  "checkNotNull reference msg =
     (if reference = JNull \<or> reference = JUndefined then Inl (Error ''IllegalValueError'' msg)
      else Inr reference)"

text \<open>\<^verbatim>\<open>options || {}\<close>.\<close>

definition empty_options :: options where
  "empty_options = \<lparr>opt_metadata = JUndefined, opt_vault = None, opt_warden = None\<rparr>"

definition default_endpoint :: "config \<Rightarrow> string" where
  "default_endpoint cfg =
     (if DEFAULT_VAULT_TLS cfg then ''https'' else ''http'') @ ''://'' @
     DEFAULT_VAULT_HOST cfg @ '':'' @ show_nat (DEFAULT_VAULT_PORT cfg)"

definition TokenProvider_new ::
  "config \<Rightarrow> (options \<Rightarrow> 'm) \<Rightarrow> js \<Rightarrow> js \<Rightarrow> options option \<Rightarrow> js_error + 'm TokenProvider" where
  "TokenProvider_new cfg metadata secret tok options =
     (case checkNotNull secret ''secret argument is required'' of
        Inl e \<Rightarrow> Inl e
      | Inr _ \<Rightarrow>
     (case checkNotNull tok ''token argument is required'' of
        Inl e \<Rightarrow> Inl e
      | Inr _ \<Rightarrow>
        let opts = (case options of None \<Rightarrow> empty_options | Some os \<Rightarrow> os);
            vault = \<lparr>endpoint = JStr (default_endpoint cfg), Vault_token = tok\<rparr>;
            vault' = (case opt_vault opts of
                        None \<Rightarrow> vault
                      | Some vo \<Rightarrow> vault\<lparr>endpoint := opt_endpoint vo\<rparr>);
            client = (case opt_vault opts of None \<Rightarrow> None | Some vo \<Rightarrow> opt_client vo);
            w = \<lparr>request_method = ''POST'',
                 headers = [''Content-Type'' \<mapsto> JStr ''application/json''],
                 hostname = JStr (DEFAULT_WARDEN_HOST cfg),
                 port = JNum (int (DEFAULT_WARDEN_PORT cfg)),
                 path = JStr (DEFAULT_WARDEN_PATH cfg)\<rparr>;
            w' = (case opt_warden opts of
                    None \<Rightarrow> w
                  | Some wo \<Rightarrow> w\<lparr>hostname := opt_host wo, port := opt_port wo\<rparr>)
        in Inr \<lparr>priv_metadata = metadata opts,
                priv_client = (case client of Some c \<Rightarrow> c | None \<Rightarrow> vault'),
                priv_warden = w',
                token = JNull,
                data = JNull,
                creation_time = JNull,
                expiration_time = JNull\<rparr>))"

subsection \<open>The outside world\<close>

text \<open>The answer of \<^verbatim>\<open>http.request\<close>: an \<^verbatim>\<open>error\<close> event, or a response with its
  status code and its whole body.\<close>

datatype http_result = RequestError js_error | Response (statusCode: nat) (body: string)

text \<open>
  What the services and the built-ins answer during one call of a method: the metadata
  service for each path (the callback's error or data), Warden for the POST, the
  built-ins \<^verbatim>\<open>JSON.parse\<close> and \<^verbatim>\<open>new Date(x).getTime()\<close>, and the Vault client's
  \<^verbatim>\<open>tokenRenew\<close> for the client, the token and the increment it is given.
\<close>

record 'm env =
  metadata_request :: "'m \<Rightarrow> string \<Rightarrow> js_error + js"
  http_request :: "warden \<Rightarrow> string \<Rightarrow> http_result"
  JSON_parse :: "string \<Rightarrow> js_error + js"
  Date_getTime :: "js \<Rightarrow> js"
  tokenRenew :: "Vault \<Rightarrow> js \<Rightarrow> int \<Rightarrow> js_error + js"

text \<open>The calls a method makes to the outside, in the order it makes them.\<close>

datatype 'm effect =
    MetadataRequest 'm string
  | HttpRequest warden string
  | TokenRenew Vault js int
  | LogInfo string string js_error

subsection \<open>Methods\<close>

text \<open>
  \<^verbatim>\<open>Promise.all\<close>: the list of the values when every promise resolves, the rejection
  of a promise that rejects otherwise. The model reports the rejection of the first
  request of the list that fails.
\<close>

fun Promise_all :: "(js_error + js) list \<Rightarrow> js list promise" where
  "Promise_all [] = Resolved []"
| "Promise_all (Inl e # rs) = Rejected e"
| "Promise_all (Inr v # rs) =
     (case Promise_all rs of Rejected e \<Rightarrow> Rejected e | Resolved vs \<Rightarrow> Resolved (v # vs))"

text \<open>\<^verbatim>\<open>_getDocument\<close>: one request for each metadata endpoint, all of them issued.\<close>

definition priv_getDocument ::
  "'m env \<Rightarrow> 'm TokenProvider \<Rightarrow> js list promise \<times> 'm effect list" where
  "priv_getDocument env this =
     (Promise_all (map (metadata_request env (priv_metadata this)) METADATA_ENDPOINTS),
      map (MetadataRequest (priv_metadata this)) METADATA_ENDPOINTS)"

text \<open>
  \<^verbatim>\<open>_post\<close>: serializes the payload, writes its length into the Content-Length header of
  \<^verbatim>\<open>this._warden\<close>, sends the request. A status other than OK rejects with the code and
  the body, a body that does not parse rejects with the parser's exception (through the
  request's \<^verbatim>\<open>error\<close> event).
\<close>

definition priv_post ::
  "config \<Rightarrow> 'm env \<Rightarrow> 'm TokenProvider \<Rightarrow> js \<Rightarrow> js promise \<times> 'm TokenProvider \<times> 'm effect list" where
  "priv_post cfg env this payload =
     (case JSON_stringify payload of
        None \<Rightarrow>
          (Rejected (Error ''TypeError'' ''Cannot read property length of undefined''), this, [])
      | Some payloadStr \<Rightarrow>
          let w = (priv_warden this)
                    \<lparr>headers := (headers (priv_warden this))
                        (''Content-Length'' \<mapsto> JNum (int (length payloadStr)))\<rparr>;
              this' = this\<lparr>priv_warden := w\<rparr>;
              fx = [HttpRequest w payloadStr]
          in (case http_request env w payloadStr of
                RequestError err \<Rightarrow> (Rejected err, this', fx)
              | Response code b \<Rightarrow>
                  if code \<noteq> STATUS_CODES_OK cfg
                  then (Rejected (Error ''Error'' (show_nat code @ '': '' @ b)), this', fx)
                  else (case JSON_parse env b of
                          Inl ex \<Rightarrow> (Rejected ex, this', fx)
                        | Inr parsedBody \<Rightarrow> (Resolved parsedBody, this', fx))))"

text \<open>\<^verbatim>\<open>_sendDocument\<close>: the payload is built from \<^verbatim>\<open>data[0]\<close> and \<^verbatim>\<open>data[2]\<close>.\<close>

definition PKCS7_envelope :: "string \<Rightarrow> string" where
  "PKCS7_envelope s =
     ''-----BEGIN PKCS7-----'' @ [CHR 0x0A] @ s @ [CHR 0x0A] @
     ''-----END PKCS7-----'' @ [CHR 0x0A]"

definition priv_sendDocument ::
  "config \<Rightarrow> 'm env \<Rightarrow> 'm TokenProvider \<Rightarrow> js list \<Rightarrow> js promise \<times> 'm TokenProvider \<times> 'm effect list" where
  "priv_sendDocument cfg env this d =
     priv_post cfg env this
       (JObj [(''document'', index d 0),
              (''signature'', JStr (PKCS7_envelope (ToString (index d 2))))])"

text \<open>
  The last handler of \<^verbatim>\<open>initialize\<close>, given Warden's parsed answer: reading
  \<^verbatim>\<open>data.client_token\<close> throws on \<^verbatim>\<open>null\<close> before any field is written.
\<close>

definition initialize_then ::
  "'m env \<Rightarrow> 'm TokenProvider \<Rightarrow> js \<Rightarrow> js_error + 'm TokenProvider" where
  "initialize_then env this d =
     (case get_prop d ''client_token'' of
        Inl e \<Rightarrow> Inl e
      | Inr tok \<Rightarrow>
     (case get_prop d ''expiration_time'' of
        Inl e \<Rightarrow> Inl e
      | Inr et \<Rightarrow>
     (case get_prop d ''creation_time'' of
        Inl e \<Rightarrow> Inl e
      | Inr ct \<Rightarrow>
     (case get_prop d ''lease_duration'' of
        Inl e \<Rightarrow> Inl e
      | Inr ld \<Rightarrow>
          Inr (this\<lparr>expiration_time := Date_getTime env et,
                    creation_time := Date_getTime env ct,
                    token := tok,
                    data := JObj [(''lease_id'', tok),
                                  (''lease_duration'', ld),
                                  (''data'', JObj [(''token'', tok)])],
                    priv_client := (priv_client this)\<lparr>Vault_token := tok\<rparr>\<rparr>)))))"

text \<open>\<^verbatim>\<open>initialize\<close>: the outcome, the state afterwards, the calls made.\<close>

definition initialize ::
  "config \<Rightarrow> 'm env \<Rightarrow> 'm TokenProvider \<Rightarrow> js promise \<times> 'm TokenProvider \<times> 'm effect list" where
  "initialize cfg env this =
     (if truthy (data this) then (Resolved (data this), this, [])
      else
        (case priv_getDocument env this of
           (Rejected e, fx1) \<Rightarrow> (Rejected e, this, fx1)
         | (Resolved d, fx1) \<Rightarrow>
             (case priv_sendDocument cfg env this d of
                (Rejected e, this', fx2) \<Rightarrow> (Rejected e, this', fx1 @ fx2)
              | (Resolved parsed, this', fx2) \<Rightarrow>
                  (case initialize_then env this' parsed of
                     Inl e \<Rightarrow> (Rejected e, this', fx1 @ fx2)
                   | Inr this'' \<Rightarrow> (Resolved (data this''), this'', fx1 @ fx2)))))"

text \<open>
  The first handler of \<^verbatim>\<open>renew\<close>, given the client's answer: the two reads of
  \<^verbatim>\<open>data.auth\<close> come before the assignment to \<^verbatim>\<open>this.data\<close>.
\<close>

definition renew_then :: "'m TokenProvider \<Rightarrow> js \<Rightarrow> js_error + 'm TokenProvider" where
  "renew_then this d =
     (case get_prop d ''auth'' of
        Inl e \<Rightarrow> Inl e
      | Inr auth \<Rightarrow>
     (case get_prop auth ''lease_duration'' of
        Inl e \<Rightarrow> Inl e
      | Inr ld \<Rightarrow>
     (case get_prop auth ''client_token'' of
        Inl e \<Rightarrow> Inl e
      | Inr ct \<Rightarrow>
          Inr (this\<lparr>data := JObj [(''lease_duration'', ld),
                                  (''data'', JObj [(''token'', ct)])]\<rparr>))))"

text \<open>
  The \<^verbatim>\<open>catch\<close> handler of \<^verbatim>\<open>renew\<close>: it sees the client's rejection and whatever
  the first handler threw.
\<close>

definition renew_catch ::
  "'m TokenProvider \<Rightarrow> js_error \<Rightarrow> js promise \<times> 'm effect list" where
  "renew_catch this err =
     (if name err = ''StatusCodeError'' then (Rejected err, [])
      else (Resolved (data this),
            [LogInfo ''An error was thrown but was ignored'' ''TokenProvider'' err]))"

definition not_initialized :: js_error where
  "not_initialized =
     Error ''Error''
       (''This token provider has not been initialized or has not received a valid'' @
        '' token from'' @ '' Warden.'')"

definition renew ::
  "config \<Rightarrow> 'm env \<Rightarrow> 'm TokenProvider \<Rightarrow> js promise \<times> 'm TokenProvider \<times> 'm effect list" where
  "renew cfg env this =
     (if \<not> truthy (token this) then (Rejected not_initialized, this, [])
      else
        let fx = [TokenRenew (priv_client this) (token this) (VAULT_TOKEN_RENEW_INCREMENT cfg)]
        in (case tokenRenew env (priv_client this) (token this) (VAULT_TOKEN_RENEW_INCREMENT cfg) of
              Inl err \<Rightarrow>
                (case renew_catch this err of (r, lg) \<Rightarrow> (r, this, fx @ lg))
            | Inr d \<Rightarrow>
                (case renew_then this d of
                   Inl err \<Rightarrow> (case renew_catch this err of (r, lg) \<Rightarrow> (r, this, fx @ lg))
                 | Inr this' \<Rightarrow> (Resolved (data this'), this', fx))))"

text \<open>\<^verbatim>\<open>invalidate\<close>: removes the cached data.\<close>

definition invalidate :: "'m TokenProvider \<Rightarrow> 'm TokenProvider" where
  "invalidate this = this\<lparr>data := JNull\<rparr>"

subsection \<open>Sequences of calls\<close>

text \<open>A call of a public method, with what the outside answers during it.\<close>

datatype 'm call = Initialize "'m env" | Renew "'m env" | Invalidate

fun exec :: "config \<Rightarrow> 'm call \<Rightarrow> 'm TokenProvider \<Rightarrow> js promise option \<times> 'm TokenProvider" where
  "exec cfg (Initialize env) this = (case initialize cfg env this of (r, this', fx) \<Rightarrow> (Some r, this'))"
| "exec cfg (Renew env) this = (case renew cfg env this of (r, this', fx) \<Rightarrow> (Some r, this'))"
| "exec cfg Invalidate this = (None, invalidate this)"

text \<open>The calls run one after the other, each on the state the one before left.\<close>

fun run :: "config \<Rightarrow> 'm call list \<Rightarrow> 'm TokenProvider \<Rightarrow> 'm TokenProvider" where
  "run cfg [] this = this"
| "run cfg (c # cs) this = run cfg cs (snd (exec cfg c this))"

text \<open>No call of \<^verbatim>\<open>initialize\<close> in the sequence resolves.\<close>

fun never_initialized :: "config \<Rightarrow> 'm call list \<Rightarrow> 'm TokenProvider \<Rightarrow> bool" where
  "never_initialized cfg [] this = True"
| "never_initialized cfg (Initialize env # cs) this =
     (case initialize cfg env this of
        (Resolved v, this', fx) \<Rightarrow> False
      | (Rejected e, this', fx) \<Rightarrow> never_initialized cfg cs this')"
| "never_initialized cfg (Renew env # cs) this =
     never_initialized cfg cs (snd (exec cfg (Renew env) this))"
| "never_initialized cfg (Invalidate # cs) this =
     never_initialized cfg cs (snd (exec cfg Invalidate this))"

section \<open>The static secret provider (lib/providers/secret.js)\<close>

text \<open>
  A class: its name, its constructor (from the path and the token to the instance's
  fields, or a throw), the methods it declares itself and the class it extends. A method
  takes the instance's fields and returns a result and the fields afterwards.
\<close>

datatype ('s, 'r) jsclass =
  Class (class_name: string)
        (construct: "js \<times> js \<Rightarrow> js_error + 's")
        (own_methods: "string \<rightharpoonup> ('s \<Rightarrow> 'r \<times> 's)")
        (extends: "('s, 'r) jsclass option")

text \<open>An instance: its class and its fields.\<close>

datatype ('s, 'r) obj = Instance (class_of: "('s, 'r) jsclass") (fields_of: 's)

text \<open>\<^verbatim>\<open>new C(path, token)\<close>.\<close>

definition new :: "('s, 'r) jsclass \<Rightarrow> js \<Rightarrow> js \<Rightarrow> js_error + ('s, 'r) obj" where
  "new C p t = (case construct C (p, t) of Inl e \<Rightarrow> Inl e | Inr s \<Rightarrow> Inr (Instance C s))"

text \<open>A method is looked up in the class, then along the classes it extends.\<close>

fun resolve :: "('s, 'r) jsclass \<Rightarrow> string \<Rightarrow> ('s \<Rightarrow> 'r \<times> 's) option" where
  "resolve (Class n c ms None) m = ms m"
| "resolve (Class n c ms (Some super)) m =
     (case ms m of Some f \<Rightarrow> Some f | None \<Rightarrow> resolve super m)"

text \<open>
  Calling the methods named in a list, one after the other, on an instance: the results
  (\<open>None\<close> where the instance has no such method, a TypeError in JavaScript) and the
  fields at the end.
\<close>

fun invoke_all :: "('s, 'r) jsclass \<Rightarrow> 's \<Rightarrow> string list \<Rightarrow> 'r option list \<times> 's" where
  "invoke_all C s [] = ([], s)"
| "invoke_all C s (m # ms) =
     (case resolve C m of
        None \<Rightarrow> (case invoke_all C s ms of (rs, s') \<Rightarrow> (None # rs, s'))
      | Some f \<Rightarrow>
          (case f s of (r, s1) \<Rightarrow>
             (case invoke_all C s1 ms of (rs, s') \<Rightarrow> (Some r # rs, s'))))"

text \<open>
  \<^verbatim>\<open>class SecretProvider extends GenericProvider\<close>: the constructor passes
  \<^verbatim>\<open>`secret/${path}`\<close> and the token to the constructor of GenericProvider, and the class
  declares no method. GenericProvider (lib/providers/generic) is not part of the sources
  and is a parameter.
\<close>

definition SecretProvider :: "('s, 'r) jsclass \<Rightarrow> ('s, 'r) jsclass" where
  "SecretProvider GenericProvider =
     Class ''SecretProvider''
       (\<lambda>(path, token). construct GenericProvider (JStr (''secret/'' @ ToString path), token))
       Map.empty
       (Some GenericProvider)"

section \<open>The lease manager (lib/lease-manager.js)\<close>

text \<open>
  The module lib/lease-manager and the enumeration lib/utils/status are not part of the
  sources: only the tests of the manager are (test/lease-manager.js). The definitions of
  this section follow the specification of the manager (its data model, its state machine
  and its timer scheduling); the providers of the tests are translated from the tests.
\<close>

text \<open>Modelled from the spec: the closed set of lifecycle states (lib/utils/status).\<close>

datatype status = PENDING | READY | ERROR

text \<open>Modelled from the spec: what a provider resolves with for lib/lease-manager:
  \<^verbatim>\<open>{data, lease_duration, renewable?}\<close> from \<^verbatim>\<open>initialize\<close>,
  \<^verbatim>\<open>{data?, lease_duration}\<close> from \<^verbatim>\<open>renew\<close>.\<close>

record 'v init_value =
  iv_data :: 'v
  iv_lease_duration :: int
  iv_renewable :: "bool option"

record 'v renew_value =
  rv_data :: "'v option"
  rv_lease_duration :: int

text \<open>
  Modelled from the spec: the provider as the manager sees it (the capability interface
  of lib/lease-manager's collaborators). \<open>'p\<close> is the provider's own state; a method
  returns what its promise settles to and the state afterwards. \<open>p_expires\<close> is the
  declared capability, \<open>p_expiration_time\<close> the absolute expiration the provider exposes.
\<close>

record ('p, 'v) provider =
  p_initialize :: "'p \<Rightarrow> (js_error + 'v init_value) \<times> 'p"
  p_renew :: "'p \<Rightarrow> (js_error + 'v renew_value) \<times> 'p"
  p_invalidate :: "'p \<Rightarrow> 'p"
  p_expires :: bool
  p_expiration_time :: "'p \<Rightarrow> js"

text \<open>Modelled from the spec: a timer of the scheduler that lib/lease-manager arms,
  known by its delay in milliseconds.\<close>

datatype timer = Timeout (idleTimeout: int)

text \<open>
  Modelled from the spec: the state of a lease manager (lib/lease-manager, data model):
  the provider it owns, status, data, lease duration, the two capabilities, the last
  renewal failure, the timer handle and its delay.
\<close>

record ('p, 'v) LeaseManager =
  provider :: 'p
  status :: status
  lm_data :: "'v option"
  lease_duration :: int
  renewable :: bool
  expires :: bool
  error :: "js_error option"
  priv_timer :: "timer option"
  priv_timeout :: "int option"

text \<open>
  Modelled from the spec: the options of the manager (lib/lease-manager, construction
  inputs): a fixed renewal delay that bypasses the computation, the renewal increment of
  the expiration check.
\<close>

record lm_options =
  renew_delay :: "int option"
  renew_increment :: int

text \<open>Modelled from the spec: what lib/lease-manager does to the outside, in order:
  calls of the provider's methods, notifications, the scheduler.\<close>

datatype lm_effect =
    CallInitialize
  | CallRenew
  | CallInvalidate
  | Emit string
  | ClearTimeout timer
  | SetTimeout int

text \<open>
  Modelled from the spec: the constructor of lib/lease-manager. A new manager is PENDING
  with no data, lease duration 0, not renewable, no timer; \<open>expires\<close> is the provider's
  declared capability.
\<close>

definition LeaseManager_new :: "('p, 'v) provider \<Rightarrow> 'p \<Rightarrow> ('p, 'v) LeaseManager" where
  "LeaseManager_new ops p =
     \<lparr>provider = p, status = PENDING, lm_data = None, lease_duration = 0,
      renewable = False, expires = p_expires ops, error = None,
      priv_timer = None, priv_timeout = None\<rparr>"

text \<open>
  Modelled from the spec: the renewal delay of lib/lease-manager: the floor of half the
  lease duration, in seconds, converted to the scheduler's milliseconds; the configured
  delay when there is one.
\<close>

definition renewal_delay :: "lm_options \<Rightarrow> int \<Rightarrow> int" where
  "renewal_delay opts ld = (case renew_delay opts of Some d \<Rightarrow> d | None \<Rightarrow> (ld div 2) * 1000)"

text \<open>
  Modelled from the spec: arming the timer in lib/lease-manager: a timer armed before is
  cancelled first, then the new one is armed with the delay of the current lease duration.
\<close>

definition arm_timer ::
  "lm_options \<Rightarrow> ('p, 'v) LeaseManager \<Rightarrow> ('p, 'v) LeaseManager \<times> lm_effect list" where
  "arm_timer opts m =
     (let d = renewal_delay opts (lease_duration m)
      in (m\<lparr>priv_timer := Some (Timeout d), priv_timeout := Some d\<rparr>,
          (case priv_timer m of None \<Rightarrow> [] | Some t \<Rightarrow> [ClearTimeout t]) @ [SetTimeout d]))"

text \<open>
  Modelled from the spec: \<^verbatim>\<open>initialize\<close> of lib/lease-manager. In READY it returns the
  current value and does nothing. Otherwise it calls the provider: on success it sets data
  and lease duration, derives \<open>renewable\<close> (true unless the response says false), clears
  the error, becomes READY, emits \<^verbatim>\<open>ready\<close> and arms the timer when renewable; on
  failure it clears data and lease duration, keeps its status and rejects.
\<close>

definition lm_initialize ::
  "('p, 'v) provider \<Rightarrow> lm_options \<Rightarrow> ('p, 'v) LeaseManager \<Rightarrow>
     'v option promise \<times> ('p, 'v) LeaseManager \<times> lm_effect list" where
  "lm_initialize ops opts m =
     (if status m = READY then (Resolved (lm_data m), m, [])
      else
        (case p_initialize ops (provider m) of
           (Inl e, p') \<Rightarrow>
             (Rejected e, m\<lparr>provider := p', lm_data := None, lease_duration := 0\<rparr>,
              [CallInitialize])
         | (Inr v, p') \<Rightarrow>
             let m1 = m\<lparr>provider := p',
                        lm_data := Some (iv_data v),
                        lease_duration := iv_lease_duration v,
                        renewable := (iv_renewable v \<noteq> Some False),
                        error := None,
                        status := READY\<rparr>
             in if renewable m1
                then (case arm_timer opts m1 of
                        (m2, fx) \<Rightarrow> (Resolved (lm_data m2), m2, [CallInitialize, Emit ''ready''] @ fx))
                else (Resolved (lm_data m1), m1, [CallInitialize, Emit ''ready''])))"

text \<open>
  Modelled from the spec: the invalidation of lib/lease-manager: data, lease duration and
  error are cleared, the timer is cancelled and discarded, the manager becomes PENDING,
  the provider's \<^verbatim>\<open>invalidate\<close> is called and \<^verbatim>\<open>invalidate\<close> is emitted.
\<close>

definition lm_invalidate ::
  "('p, 'v) provider \<Rightarrow> ('p, 'v) LeaseManager \<Rightarrow> ('p, 'v) LeaseManager \<times> lm_effect list" where
  "lm_invalidate ops m =
     (m\<lparr>lm_data := None, lease_duration := 0, error := None,
        priv_timer := None, priv_timeout := None, status := PENDING,
        provider := p_invalidate ops (provider m)\<rparr>,
      (case priv_timer m of None \<Rightarrow> [] | Some t \<Rightarrow> [ClearTimeout t]) @
      [CallInvalidate, Emit ''invalidate''])"

text \<open>
  Modelled from the spec: the renewal cycle of lib/lease-manager (\<^verbatim>\<open>_renew\<close>), run when
  the timer fires or called directly. \<open>at_ceiling now increment expiration_time\<close> is the
  comparison of "now + renewal increment" with the provider's absolute expiration, which
  the specification leaves to a configurable policy. The cycle is driven by the timer, which
  exists only in READY for a renewable value: in any other state (ERROR in particular) the
  cycle does nothing. At the ceiling it invalidates and does not renew. Otherwise it calls
  the provider's \<^verbatim>\<open>renew\<close>: on success it updates the lease duration, the data when the
  response has one, emits \<^verbatim>\<open>renewed\<close> and arms the timer again; on failure it sets
  the error, becomes ERROR, clears the timer and emits \<^verbatim>\<open>error\<close>.
\<close>

definition renewal_cycle ::
  "('p, 'v) provider \<Rightarrow> lm_options \<Rightarrow> (int \<Rightarrow> int \<Rightarrow> js \<Rightarrow> bool) \<Rightarrow> int \<Rightarrow>
     ('p, 'v) LeaseManager \<Rightarrow> ('p, 'v) LeaseManager \<times> lm_effect list" where
  "renewal_cycle ops opts at_ceiling now m =
     (if status m \<noteq> READY \<or> \<not> renewable m then (m, [])
      else if expires m \<and>
              at_ceiling now (renew_increment opts) (p_expiration_time ops (provider m))
      then lm_invalidate ops m
      else
        (case p_renew ops (provider m) of
           (Inl e, p') \<Rightarrow>
             (m\<lparr>provider := p', error := Some e, status := ERROR,
                priv_timer := None, priv_timeout := None\<rparr>,
              [CallRenew] @
              (case priv_timer m of None \<Rightarrow> [] | Some t \<Rightarrow> [ClearTimeout t]) @
              [Emit ''error''])
         | (Inr v, p') \<Rightarrow>
             (case arm_timer opts
                     (m\<lparr>provider := p',
                        lease_duration := rv_lease_duration v,
                        lm_data := (case rv_data v of None \<Rightarrow> lm_data m | Some d \<Rightarrow> Some d)\<rparr>) of
                (m2, fx) \<Rightarrow> (m2, [CallRenew, Emit ''renewed''] @ fx))))"

section \<open>The providers of the tests (test/lease-manager.js)\<close>

text \<open>
  Each test double is given as the provider the manager sees. A double that has no
  \<^verbatim>\<open>invalidate\<close> and no expiration leaves its state alone and exposes \<^verbatim>\<open>undefined\<close>.
\<close>

definition SECRET :: "string init_value" where
  "SECRET = \<lparr>iv_data = ''SECRET'', iv_lease_duration = 1, iv_renewable = None\<rparr>"

text \<open>\<^verbatim>\<open>FailToRenewProvider\<close>: no state; \<^verbatim>\<open>renew\<close> always rejects.\<close>

definition FailToRenewProvider :: "(unit, string) provider" where
  "FailToRenewProvider =
     \<lparr>p_initialize = (\<lambda>this. (Inr SECRET, this)),
      p_renew = (\<lambda>this. (Inl (Error ''Error'' ''Failed to renew.''), this)),
      p_invalidate = (\<lambda>this. this),
      p_expires = False,
      p_expiration_time = (\<lambda>this. JUndefined)\<rparr>"

text \<open>\<^verbatim>\<open>CountingRenewProvider\<close>: its state is \<^verbatim>\<open>this.count\<close>; \<^verbatim>\<open>renew\<close> rejects and
  counts down while the count is above 1.\<close>

definition CountingRenewProvider :: "(int, string) provider" where
  "CountingRenewProvider =
     \<lparr>p_initialize = (\<lambda>count. (Inr SECRET, count)),
      p_renew = (\<lambda>count.
         if count > 1
         then (Inl (Error ''Error'' (''Need '' @ show_int (count - 1) @ '' more calls to renew'')),
               count - 1)
         else (Inr \<lparr>rv_data = None, rv_lease_duration = 2\<rparr>, count)),
      p_invalidate = (\<lambda>count. count),
      p_expires = False,
      p_expiration_time = (\<lambda>count. JUndefined)\<rparr>"

text \<open>\<^verbatim>\<open>ChangingTimeoutProvider\<close>: its state is \<^verbatim>\<open>this.renewed\<close>; the first renewal
  reports a lease of 2, the later ones a lease of 1.\<close>

definition ChangingTimeoutProvider :: "(bool, string) provider" where
  "ChangingTimeoutProvider =
     \<lparr>p_initialize = (\<lambda>renewed. (Inr SECRET, renewed)),
      p_renew = (\<lambda>renewed.
         if renewed then (Inr \<lparr>rv_data = Some ''SECRET'', rv_lease_duration = 1\<rparr>, renewed)
         else (Inr \<lparr>rv_data = Some ''SECRET'', rv_lease_duration = 2\<rparr>, True)),
      p_invalidate = (\<lambda>renewed. renewed),
      p_expires = False,
      p_expiration_time = (\<lambda>renewed. JUndefined)\<rparr>"

text \<open>
  \<^verbatim>\<open>ExpiringProvider\<close>. The constructor evaluates \<^verbatim>\<open>new Date() + 2\<close>, the date printed
  as a string followed by the character 2; \<open>today\<close> is that printed date, which also
  stands for the Date object of \<^verbatim>\<open>creation_time\<close>.
\<close>

record ExpiringProvider =
  ep_expiration_time :: js
  ep_creation_time :: js
  ep_data :: "string init_value option"

definition ExpiringProvider_new :: "string \<Rightarrow> ExpiringProvider" where
  "ExpiringProvider_new today =
     \<lparr>ep_expiration_time = JStr (today @ ''2''),
      ep_creation_time = JStr today,
      ep_data = Some \<lparr>iv_data = ''SECRET'', iv_lease_duration = 2, iv_renewable = None\<rparr>\<rparr>"

text \<open>
  \<^verbatim>\<open>initialize\<close> and \<^verbatim>\<open>renew\<close> resolve with \<^verbatim>\<open>this.data\<close>, \<^verbatim>\<open>invalidate\<close> sets it
  to \<^verbatim>\<open>null\<close>. A promise resolved with \<^verbatim>\<open>null\<close> gives the manager no data and no lease
  duration to read: it is passed on as a TypeError.
\<close>

definition ExpiringProvider_initialize :: "ExpiringProvider \<Rightarrow> string init_value option" where
  "ExpiringProvider_initialize this = ep_data this"

definition ExpiringProvider_renew :: "ExpiringProvider \<Rightarrow> string init_value option" where
  "ExpiringProvider_renew this = ep_data this"

definition ExpiringProvider_invalidate :: "ExpiringProvider \<Rightarrow> ExpiringProvider" where
  "ExpiringProvider_invalidate this = this\<lparr>ep_data := None\<rparr>"

definition null_value :: js_error where
  "null_value = Error ''TypeError'' ''Cannot read property data of null''"

definition ExpiringProvider_ops :: "(ExpiringProvider, string) provider" where
  "ExpiringProvider_ops =
     \<lparr>p_initialize = (\<lambda>this.
         (case ExpiringProvider_initialize this of
            None \<Rightarrow> Inl null_value
          | Some v \<Rightarrow> Inr v, this)),
      p_renew = (\<lambda>this.
         (case ExpiringProvider_renew this of
            None \<Rightarrow> Inl null_value
          | Some v \<Rightarrow> Inr \<lparr>rv_data = Some (iv_data v), rv_lease_duration = iv_lease_duration v\<rparr>,
          this)),
      p_invalidate = ExpiringProvider_invalidate,
      p_expires = True,
      p_expiration_time = ep_expiration_time\<rparr>"

section \<open>Concrete runs\<close>

text \<open>A configuration, the answers of the services when everything works, and the
  variations used below.\<close>

definition cfg0 :: config where
  "cfg0 = \<lparr>DEFAULT_VAULT_PORT = 8200, DEFAULT_VAULT_HOST = ''vault'', DEFAULT_VAULT_TLS = True,
           DEFAULT_WARDEN_HOST = ''warden'', DEFAULT_WARDEN_PORT = 8705,
           DEFAULT_WARDEN_PATH = ''/authenticate'', VAULT_TOKEN_RENEW_INCREMENT = 60,
           STATUS_CODES_OK = 200\<rparr>"

definition md0 :: "options \<Rightarrow> nat" where
  "md0 opts = 0"

definition warden_answer :: js where
  "warden_answer =
     JObj [(''client_token'', JStr ''tok-1''), (''lease_duration'', JNum 300),
           (''creation_time'', JStr ''T0''), (''expiration_time'', JStr ''T1'')]"

definition env_ok :: "nat env" where
  "env_ok =
     \<lparr>metadata_request = (\<lambda>m p.
         if p = ''/latest/dynamic/instance-identity/document'' then Inr (JStr ''DOC'')
         else if p = ''/latest/dynamic/instance-identity/signature'' then Inr (JStr ''SIG'')
         else Inr (JStr ''P7'')),
      http_request = (\<lambda>w b. Response 200 ''ANSWER''),
      JSON_parse = (\<lambda>s. Inr warden_answer),
      Date_getTime = (\<lambda>v. if v = JStr ''T0'' then JNum 1000 else if v = JStr ''T1'' then JNum 2000 else JNaN),
      tokenRenew = (\<lambda>c t i.
         Inr (JObj [(''auth'', JObj [(''lease_duration'', JNum 600), (''client_token'', JStr ''tok-1'')])]))\<rparr>"

definition env_status_error :: "nat env" where
  "env_status_error =
     env_ok\<lparr>tokenRenew := (\<lambda>c t i. Inl (Error ''StatusCodeError'' ''403 - permission denied''))\<rparr>"

definition env_network_error :: "nat env" where
  "env_network_error =
     env_ok\<lparr>tokenRenew := (\<lambda>c t i. Inl (Error ''RequestError'' ''connect ECONNREFUSED''))\<rparr>"

definition env_no_metadata :: "nat env" where
  "env_no_metadata =
     env_ok\<lparr>metadata_request := (\<lambda>m p. Inl (Error ''Error'' ''connect ETIMEDOUT''))\<rparr>"

text \<open>A provider as the constructor leaves it, and one that holds a token.\<close>

definition fresh0 :: "nat TokenProvider" where
  "fresh0 =
     \<lparr>priv_metadata = 0,
      priv_client = \<lparr>endpoint = JStr ''https://vault:8200'', Vault_token = JStr ''t''\<rparr>,
      priv_warden = \<lparr>request_method = ''POST'',
                     headers = [''Content-Type'' \<mapsto> JStr ''application/json''],
                     hostname = JStr ''warden'', port = JNum 8705, path = JStr ''/authenticate''\<rparr>,
      token = JNull, data = JNull, creation_time = JNull, expiration_time = JNull\<rparr>"

definition ready0 :: "nat TokenProvider" where
  "ready0 =
     fresh0\<lparr>token := JStr ''tok-1'',
            data := JObj [(''lease_id'', JStr ''tok-1''), (''lease_duration'', JNum 300),
                          (''data'', JObj [(''token'', JStr ''tok-1'')])],
            creation_time := JNum 1000,
            expiration_time := JNum 2000,
            priv_client := \<lparr>endpoint = JStr ''https://vault:8200'', Vault_token = JStr ''tok-1''\<rparr>\<rparr>"

text \<open>A provider whose cache holds the answer of a renewal.\<close>

definition renewed0 :: "nat TokenProvider" where
  "renewed0 =
     ready0\<lparr>data := JObj [(''lease_duration'', JNum 600),
                           (''data'', JObj [(''token'', JStr ''tok-1'')])]\<rparr>"

text \<open>Options that override the Vault endpoint and Warden's host and port, and options
  that name Warden's host and a request path, and no port.\<close>

definition options_both :: options where
  "options_both =
     \<lparr>opt_metadata = JUndefined,
      opt_vault = Some \<lparr>opt_endpoint = JStr ''http://127.0.0.1:8200'', opt_client = None\<rparr>,
      opt_warden = Some \<lparr>opt_host = JStr ''127.0.0.1'', opt_port = JNum 8080,
                         opt_path = JUndefined\<rparr>\<rparr>"

definition options_host_path :: options where
  "options_host_path =
     \<lparr>opt_metadata = JUndefined,
      opt_vault = None,
      opt_warden = Some \<lparr>opt_host = JStr ''127.0.0.1'', opt_port = JUndefined,
                         opt_path = JStr ''/v2/authenticate''\<rparr>\<rparr>"

text \<open>A stand-in for GenericProvider: its fields are the path and the token, its method
  \<^verbatim>\<open>initialize\<close> answers the path.\<close>

definition Generic0 :: "(js \<times> js, js) jsclass" where
  "Generic0 =
     Class ''GenericProvider'' (\<lambda>(p, t). Inr (p, t))
       [''initialize'' \<mapsto> (\<lambda>s. (fst s, s))] None"

text \<open>A stand-in for a GenericProvider that checks its path and its token the way
  TokenProvider checks its arguments.\<close>

definition CheckedGeneric :: "(js \<times> js, js) jsclass" where
  "CheckedGeneric =
     Class ''GenericProvider''
       (\<lambda>(p, t).
          case checkNotNull p ''path argument is required'' of
            Inl e \<Rightarrow> Inl e
          | Inr _ \<Rightarrow>
              (case checkNotNull t ''token argument is required'' of
                 Inl e \<Rightarrow> Inl e
               | Inr _ \<Rightarrow> Inr (p, t)))
       Map.empty None"

text \<open>The bodies of the POST requests among the calls a method made.\<close>

fun posted_bodies :: "'m effect list \<Rightarrow> string list" where
  "posted_bodies [] = []"
| "posted_bodies (HttpRequest w b # fx) = b # posted_bodies fx"
| "posted_bodies (e # fx) = posted_bodies fx"

text \<open>The paths of the metadata requests and the Content-Length headers of the POST
  requests among the calls a method made.\<close>

fun metadata_paths :: "'m effect list \<Rightarrow> string list" where
  "metadata_paths [] = []"
| "metadata_paths (MetadataRequest m p # fx) = p # metadata_paths fx"
| "metadata_paths (e # fx) = metadata_paths fx"

fun posted_lengths :: "'m effect list \<Rightarrow> js option list" where
  "posted_lengths [] = []"
| "posted_lengths (HttpRequest w b # fx) = headers w ''Content-Length'' # posted_lengths fx"
| "posted_lengths (e # fx) = posted_lengths fx"

text \<open>The calls of a sequence that are not \<^verbatim>\<open>initialize\<close>.\<close>

fun renew_or_invalidate :: "'m call \<Rightarrow> bool" where
  "renew_or_invalidate (Initialize env) = False"
| "renew_or_invalidate (Renew env) = True"
| "renew_or_invalidate Invalidate = True"

text \<open>An example of the policy of the expiration check: the value is at its ceiling
  unless the expiration is a number and "now + increment" lies before it.\<close>

definition before_expiration :: "int \<Rightarrow> int \<Rightarrow> js \<Rightarrow> bool" where
  "before_expiration now increment e =
     (case e of JNum t \<Rightarrow> \<not> (now + increment < t) | _ \<Rightarrow> True)"

definition opts0 :: lm_options where
  "opts0 = \<lparr>renew_delay = None, renew_increment = 5\<rparr>"

text \<open>The managers of the tests once \<^verbatim>\<open>initialize\<close> has settled: on the provider
  that fails to renew, on the one that counts its renewals, on the one whose lease
  changes, on the one that expires.\<close>

definition FailToRenew_ready :: "(unit, string) LeaseManager" where
  "FailToRenew_ready =
     \<lparr>provider = (), status = READY, lm_data = Some ''SECRET'', lease_duration = 1,
      renewable = True, expires = False, error = None,
      priv_timer = Some (Timeout 0), priv_timeout = Some 0\<rparr>"

definition CountingRenew_ready :: "int \<Rightarrow> (int, string) LeaseManager" where
  "CountingRenew_ready count =
     \<lparr>provider = count, status = READY, lm_data = Some ''SECRET'', lease_duration = 1,
      renewable = True, expires = False, error = None,
      priv_timer = Some (Timeout 0), priv_timeout = Some 0\<rparr>"

definition ChangingTimeout_ready :: "(bool, string) LeaseManager" where
  "ChangingTimeout_ready =
     \<lparr>provider = False, status = READY, lm_data = Some ''SECRET'', lease_duration = 1,
      renewable = True, expires = False, error = None,
      priv_timer = Some (Timeout 0), priv_timeout = Some 0\<rparr>"

definition today0 :: string where
  "today0 = ''Tue Nov 03 2026 04:04:00 GMT+0000 (Coordinated Universal Time)''"

definition Expiring_ready :: "(ExpiringProvider, string) LeaseManager" where
  "Expiring_ready =
     \<lparr>provider = ExpiringProvider_new today0, status = READY, lm_data = Some ''SECRET'',
      lease_duration = 2, renewable = True, expires = True, error = None,
      priv_timer = Some (Timeout 1000), priv_timeout = Some 1000\<rparr>"

section \<open>Properties of the token provider\<close>

subsection \<open>What the methods leave alone\<close>

lemma renew_uninitialized:
  "\<not> truthy (token this) \<Longrightarrow> renew cfg env this = (Rejected not_initialized, this, [])"
  by (simp add: renew_def)

lemma priv_post_frame:
  "priv_post cfg env this payload = (r, this', fx) \<Longrightarrow>
     token this' = token this \<and> data this' = data this \<and>
     creation_time this' = creation_time this \<and> expiration_time this' = expiration_time this \<and>
     priv_metadata this' = priv_metadata this \<and> priv_client this' = priv_client this"
  by (auto simp: priv_post_def Let_def split: option.splits http_result.splits if_splits sum.splits)

lemma initialize_rejected_frame:
  "initialize cfg env this = (Rejected e, this', fx) \<Longrightarrow>
     token this' = token this \<and> data this' = data this \<and>
     creation_time this' = creation_time this \<and> expiration_time this' = expiration_time this"
  by (auto simp: initialize_def priv_sendDocument_def
           split: if_splits prod.splits promise.splits sum.splits
           dest: priv_post_frame)

lemma renew_frame:
  "renew cfg env this = (r, this', fx) \<Longrightarrow>
     token this' = token this \<and>
     creation_time this' = creation_time this \<and> expiration_time this' = expiration_time this"
  by (auto simp: renew_def renew_then_def Let_def split: if_splits prod.splits sum.splits)

lemma never_initialized_run:
  "never_initialized cfg cs this \<Longrightarrow> token this = JNull \<Longrightarrow> token (run cfg cs this) = JNull"
proof (induction cfg cs this rule: never_initialized.induct)
  case (1 cfg this)
  then show ?case by simp
next
  case (2 cfg env cs this)
  then show ?case
    by (auto split: prod.splits promise.splits dest: initialize_rejected_frame)
next
  case (3 cfg env cs this)
  then show ?case by (auto split: prod.splits dest: renew_frame)
next
  case (4 cfg cs this)
  then show ?case by (simp add: invalidate_def)
qed

lemma TokenProvider_new_token:
  "TokenProvider_new cfg md secret tok options = Inr p \<Longrightarrow> token p = JNull \<and> data p = JNull"
  by (auto simp: TokenProvider_new_def Let_def split: sum.splits)

subsection \<open>The concrete provider\<close>

lemma show_nat_8200: "show_nat 8200 = ''8200''"
  by (simp add: show_nat.simps digit_def)

lemma TokenProvider_new_fresh0:
  "TokenProvider_new cfg0 md0 (JStr ''db/creds'') (JStr ''t'') None = Inr fresh0"
  by (simp add: TokenProvider_new_def checkNotNull_def empty_options_def default_endpoint_def
      cfg0_def md0_def fresh0_def show_nat_8200)

lemma initialize_no_metadata:
  "initialize cfg0 env_no_metadata fresh0 =
     (Rejected (Error ''Error'' ''connect ETIMEDOUT''), fresh0,
      map (MetadataRequest 0) METADATA_ENDPOINTS)"
  by (simp add: initialize_def priv_getDocument_def METADATA_ENDPOINTS_def env_no_metadata_def
      env_ok_def fresh0_def)

subsection \<open>Renewal before any token is held\<close>

text \<open>
  C5. On a provider as its constructor built it, after any sequence of calls in which no
  \<^verbatim>\<open>initialize\<close> resolved, \<^verbatim>\<open>renew\<close> rejects with the not-initialized error, makes
  no call to the outside and leaves the provider's state as it was.
\<close>

theorem renew_before_initialize:
  assumes "TokenProvider_new cfg md secret tok options = Inr p0"
    and "never_initialized cfg cs p0"
  shows "renew cfg env (run cfg cs p0) = (Rejected not_initialized, run cfg cs p0, [])"
proof -
  have "token p0 = JNull" using assms(1) by (simp add: TokenProvider_new_token)
  then have "token (run cfg cs p0) = JNull" using assms(2) by (simp add: never_initialized_run)
  then show ?thesis by (simp add: renew_uninitialized)
qed

theorem renew_before_initialize_witness:
  "TokenProvider_new cfg0 md0 (JStr ''db/creds'') (JStr ''t'') None = Inr fresh0 \<and>
   never_initialized cfg0 [Initialize env_no_metadata, Invalidate, Renew env_ok] fresh0 \<and>
   renew cfg0 env_ok (run cfg0 [Initialize env_no_metadata, Invalidate, Renew env_ok] fresh0) =
     (Rejected not_initialized,
      run cfg0 [Initialize env_no_metadata, Invalidate, Renew env_ok] fresh0, [])"
proof -
  have a: "TokenProvider_new cfg0 md0 (JStr ''db/creds'') (JStr ''t'') None = Inr fresh0"
    by (rule TokenProvider_new_fresh0)
  have b: "never_initialized cfg0 [Initialize env_no_metadata, Invalidate, Renew env_ok] fresh0"
    by (simp add: initialize_no_metadata)
  show ?thesis using a b renew_before_initialize [OF a b] by simp
qed

subsection \<open>Renewal when the store call fails\<close>

text \<open>
  C4. On a provider that holds a token, when the client's \<^verbatim>\<open>tokenRenew\<close> rejects with
  an error: if the error's name is StatusCodeError, \<^verbatim>\<open>renew\<close> rejects with that error;
  for any other error it logs and resolves with the cached \<^verbatim>\<open>this.data\<close>. In both cases
  the provider's state is unchanged and the outcome is a resolution or a rejection.
\<close>

theorem renew_store_failure:
  assumes "truthy (token this)"
    and "tokenRenew env (priv_client this) (token this) (VAULT_TOKEN_RENEW_INCREMENT cfg) = Inl err"
  shows "renew cfg env this =
     (if name err = ''StatusCodeError''
      then (Rejected err, this,
            [TokenRenew (priv_client this) (token this) (VAULT_TOKEN_RENEW_INCREMENT cfg)])
      else (Resolved (data this), this,
            [TokenRenew (priv_client this) (token this) (VAULT_TOKEN_RENEW_INCREMENT cfg),
             LogInfo ''An error was thrown but was ignored'' ''TokenProvider'' err]))"
  using assms by (simp add: renew_def renew_catch_def)

theorem renew_store_failure_witness:
  "truthy (token ready0) \<and>
   tokenRenew env_status_error (priv_client ready0) (token ready0) (VAULT_TOKEN_RENEW_INCREMENT cfg0)
     = Inl (Error ''StatusCodeError'' ''403 - permission denied'') \<and>
   fst (renew cfg0 env_status_error ready0)
     = Rejected (Error ''StatusCodeError'' ''403 - permission denied'') \<and>
   tokenRenew env_network_error (priv_client ready0) (token ready0) (VAULT_TOKEN_RENEW_INCREMENT cfg0)
     = Inl (Error ''RequestError'' ''connect ECONNREFUSED'') \<and>
   fst (renew cfg0 env_network_error ready0) = Resolved (data ready0) \<and>
   fst (snd (renew cfg0 env_network_error ready0)) = ready0"
proof -
  have t: "truthy (token ready0)" by (simp add: ready0_def)
  have a: "tokenRenew env_status_error (priv_client ready0) (token ready0)
             (VAULT_TOKEN_RENEW_INCREMENT cfg0)
           = Inl (Error ''StatusCodeError'' ''403 - permission denied'')"
    by (simp add: env_status_error_def)
  have b: "tokenRenew env_network_error (priv_client ready0) (token ready0)
             (VAULT_TOKEN_RENEW_INCREMENT cfg0)
           = Inl (Error ''RequestError'' ''connect ECONNREFUSED'')"
    by (simp add: env_network_error_def)
  show ?thesis
    using t a b renew_store_failure [OF t a] renew_store_failure [OF t b] by simp
qed

subsection \<open>The requests of a fresh acquisition\<close>

lemma priv_post_effects:
  "JSON_stringify payload = Some b \<Longrightarrow>
   snd (snd (priv_post cfg env this payload)) =
     [HttpRequest ((priv_warden this)\<lparr>headers := (headers (priv_warden this))
                      (''Content-Length'' \<mapsto> JNum (int (length b)))\<rparr>) b]"
  by (simp add: priv_post_def Let_def split: http_result.splits sum.splits)

lemma initialize_cached:
  "truthy (data this) \<Longrightarrow> initialize cfg env this = (Resolved (data this), this, [])"
  by (simp add: initialize_def)

lemma initialize_fresh_effects:
  assumes "\<not> truthy (data this)"
  shows "snd (snd (initialize cfg env this)) =
     map (MetadataRequest (priv_metadata this)) METADATA_ENDPOINTS @
     (case Promise_all (map (metadata_request env (priv_metadata this)) METADATA_ENDPOINTS) of
        Rejected e \<Rightarrow> []
      | Resolved d \<Rightarrow> snd (snd (priv_sendDocument cfg env this d)))"
  using assms
  by (simp add: initialize_def priv_getDocument_def split: promise.splits prod.splits sum.splits)

lemma Promise_all_three:
  "Promise_all [Inr d0, Inr d1, Inr d2] = Resolved [d0, d1, d2]"
  by simp

lemma sendDocument_effects:
  "JSON_stringify (JObj [(''document'', index d 0),
                         (''signature'', JStr (PKCS7_envelope (ToString (index d 2))))]) = Some b \<Longrightarrow>
   snd (snd (priv_sendDocument cfg env this d)) =
     [HttpRequest ((priv_warden this)\<lparr>headers := (headers (priv_warden this))
                      (''Content-Length'' \<mapsto> JNum (int (length b)))\<rparr>) b]"
  unfolding priv_sendDocument_def by (rule priv_post_effects)

lemma sendDocument_bodies:
  "map Some (posted_bodies (snd (snd (priv_sendDocument cfg env this d)))) =
     [JSON_stringify (JObj [(''document'', index d 0),
                            (''signature'', JStr (PKCS7_envelope (ToString (index d 2))))])]"
proof -
  obtain b where b: "JSON_stringify (JObj [(''document'', index d 0),
                         (''signature'', JStr (PKCS7_envelope (ToString (index d 2))))]) = Some b"
    by simp
  show ?thesis unfolding sendDocument_effects [OF b] using b by simp
qed

lemma sendDocument_lengths:
  "posted_lengths (snd (snd (priv_sendDocument cfg env this d))) =
     map (\<lambda>b. Some (JNum (int (length b)))) (posted_bodies (snd (snd (priv_sendDocument cfg env this d))))"
proof -
  obtain b where b: "JSON_stringify (JObj [(''document'', index d 0),
                         (''signature'', JStr (PKCS7_envelope (ToString (index d 2))))]) = Some b"
    by simp
  show ?thesis unfolding sendDocument_effects [OF b] by simp
qed

lemma sendDocument_paths:
  "metadata_paths (snd (snd (priv_sendDocument cfg env this d))) = []"
proof -
  obtain b where b: "JSON_stringify (JObj [(''document'', index d 0),
                         (''signature'', JStr (PKCS7_envelope (ToString (index d 2))))]) = Some b"
    by simp
  show ?thesis unfolding sendDocument_effects [OF b] by simp
qed

lemma metadata_paths_requests:
  "metadata_paths (map (MetadataRequest m) ps @ fx) = ps @ metadata_paths fx"
  by (induction ps) simp_all

lemma posted_bodies_requests:
  "posted_bodies (map (MetadataRequest m) ps @ fx) = posted_bodies fx"
  by (induction ps) simp_all

lemma posted_lengths_requests:
  "posted_lengths (map (MetadataRequest m) ps @ fx) = posted_lengths fx"
  by (induction ps) simp_all

text \<open>
  C7, as amended. An \<^verbatim>\<open>initialize\<close> without cached data requests exactly the three
  metadata endpoints (document, signature, pkcs7), first and in this order. When the three
  requests succeed it sends exactly one POST, whose body is the serialization of
  \<^verbatim>\<open>{document, signature}\<close> with the document value and, as signature, the pkcs7 value
  inside the PKCS7 envelope; the value of the signature endpoint is not used. The
  Content-Length header of the POST is the length of the body. When a metadata request
  fails, no POST is sent.
\<close>

theorem fresh_acquisition_requests:
  assumes "\<not> truthy (data this)"
  shows "metadata_paths (snd (snd (initialize cfg env this))) = METADATA_ENDPOINTS \<and>
     take 3 (snd (snd (initialize cfg env this))) =
       map (MetadataRequest (priv_metadata this)) METADATA_ENDPOINTS \<and>
     (\<forall>d0 d1 d2.
        map (metadata_request env (priv_metadata this)) METADATA_ENDPOINTS = [Inr d0, Inr d1, Inr d2] \<longrightarrow>
        map Some (posted_bodies (snd (snd (initialize cfg env this)))) =
          [JSON_stringify (JObj [(''document'', d0),
                                 (''signature'', JStr (PKCS7_envelope (ToString d2)))])]) \<and>
     posted_lengths (snd (snd (initialize cfg env this))) =
       map (\<lambda>b. Some (JNum (int (length b)))) (posted_bodies (snd (snd (initialize cfg env this)))) \<and>
     (\<forall>e. fst (priv_getDocument env this) = Rejected e \<longrightarrow>
        posted_bodies (snd (snd (initialize cfg env this))) = [])"
proof -
  let ?rs = "map (metadata_request env (priv_metadata this)) METADATA_ENDPOINTS"
  note fx = initialize_fresh_effects [OF assms, of cfg env]
  have paths: "metadata_paths (snd (snd (initialize cfg env this))) = METADATA_ENDPOINTS"
    unfolding fx by (simp add: metadata_paths_requests sendDocument_paths split: promise.splits)
  have first: "take 3 (snd (snd (initialize cfg env this))) =
       map (MetadataRequest (priv_metadata this)) METADATA_ENDPOINTS"
    unfolding fx by (simp add: METADATA_ENDPOINTS_def)
  have bodies: "map Some (posted_bodies (snd (snd (initialize cfg env this)))) =
          [JSON_stringify (JObj [(''document'', d0),
                                 (''signature'', JStr (PKCS7_envelope (ToString d2)))])]"
    if "?rs = [Inr d0, Inr d1, Inr d2]" for d0 d1 d2
  proof -
    have "Promise_all ?rs = Resolved [d0, d1, d2]" unfolding that by simp
    then show ?thesis
      unfolding fx by (simp add: posted_bodies_requests sendDocument_bodies index_def)
  qed
  have lengths: "posted_lengths (snd (snd (initialize cfg env this))) =
       map (\<lambda>b. Some (JNum (int (length b)))) (posted_bodies (snd (snd (initialize cfg env this))))"
    unfolding fx
    by (simp add: posted_bodies_requests posted_lengths_requests sendDocument_lengths
        split: promise.splits)
  have none: "posted_bodies (snd (snd (initialize cfg env this))) = []"
    if "fst (priv_getDocument env this) = Rejected e" for e
    using that posted_bodies_requests [of "priv_metadata this" METADATA_ENDPOINTS "[]"]
    unfolding fx by (simp add: priv_getDocument_def)
  show ?thesis using paths first bodies lengths none by blast
qed


lemma stringify_attestation:
  "JSON_stringify (JObj [(''document'', JStr d), (''signature'', JStr s)]) =
     Some (''{'' @ QuoteJSONString ''document'' @ '':'' @ QuoteJSONString d @ '','' @
           QuoteJSONString ''signature'' @ '':'' @ QuoteJSONString s @ ''}'')"
  by (simp add: QuoteJSONString_def)

lemma env_ok_metadata:
  "map (metadata_request env_ok (priv_metadata fresh0)) METADATA_ENDPOINTS =
     [Inr (JStr ''DOC''), Inr (JStr ''SIG''), Inr (JStr ''P7'')]"
  by (simp add: env_ok_def METADATA_ENDPOINTS_def)

theorem fresh_acquisition_requests_witness:
  "\<not> truthy (data fresh0) \<and>
   map (metadata_request env_ok (priv_metadata fresh0)) METADATA_ENDPOINTS =
     [Inr (JStr ''DOC''), Inr (JStr ''SIG''), Inr (JStr ''P7'')] \<and>
   metadata_paths (snd (snd (initialize cfg0 env_ok fresh0))) = METADATA_ENDPOINTS \<and>
   map Some (posted_bodies (snd (snd (initialize cfg0 env_ok fresh0)))) =
     [JSON_stringify (JObj [(''document'', JStr ''DOC''),
                            (''signature'', JStr (PKCS7_envelope ''P7''))])]"
proof -
  have a: "\<not> truthy (data fresh0)" by (simp add: fresh0_def)
  show ?thesis
    using a env_ok_metadata fresh_acquisition_requests [OF a, of cfg0 env_ok] by simp
qed

lemma env_ok_bodies:
  "map Some (posted_bodies (snd (snd (initialize cfg0 env_ok fresh0)))) =
     [JSON_stringify (JObj [(''document'', JStr ''DOC''),
                            (''signature'', JStr (PKCS7_envelope ''P7''))])]"
proof -
  have a: "\<not> truthy (data fresh0)" by (simp add: fresh0_def)
  have "Promise_all (map (metadata_request env_ok (priv_metadata fresh0)) METADATA_ENDPOINTS) =
          Resolved [JStr ''DOC'', JStr ''SIG'', JStr ''P7'']"
    unfolding env_ok_metadata by simp
  then show ?thesis
    unfolding initialize_fresh_effects [OF a]
    by (simp add: posted_bodies_requests sendDocument_bodies index_def)
qed

text \<open>
  C7 as stated fails: with the signature endpoint answering SIG and the pkcs7 endpoint
  answering P7, the signature field of the body is not the envelope of SIG.
\<close>

theorem signature_field_counterexample:
  "metadata_request env_ok (priv_metadata fresh0) ''/latest/dynamic/instance-identity/signature''
     = Inr (JStr ''SIG'') \<and>
   map Some (posted_bodies (snd (snd (initialize cfg0 env_ok fresh0)))) \<noteq>
     [JSON_stringify (JObj [(''document'', JStr ''DOC''),
                            (''signature'', JStr (PKCS7_envelope ''SIG''))])]"
proof -
  have "JSON_stringify (JObj [(''document'', JStr ''DOC''),
                            (''signature'', JStr (PKCS7_envelope ''P7''))]) \<noteq>
     JSON_stringify (JObj [(''document'', JStr ''DOC''),
                            (''signature'', JStr (PKCS7_envelope ''SIG''))])"
    by (simp add: QuoteJSONString_def PKCS7_envelope_def json_escape_def)
  then show ?thesis unfolding env_ok_bodies by (simp add: env_ok_def)
qed

subsection \<open>The cache\<close>

lemma invalidate_fields:
  "data (invalidate this) = JNull \<and> token (invalidate this) = token this \<and>
   priv_metadata (invalidate this) = priv_metadata this \<and>
   priv_warden (invalidate this) = priv_warden this \<and>
   creation_time (invalidate this) = creation_time this \<and>
   expiration_time (invalidate this) = expiration_time this"
  by (simp add: invalidate_def)

lemma getDocument_invalidate:
  "priv_getDocument env (invalidate this) = priv_getDocument env this"
  by (simp add: priv_getDocument_def invalidate_def)

lemma get_prop_other:
  "get_prop d k = Inr v \<Longrightarrow> \<exists>v'. get_prop d k' = Inr v'"
  by (cases d) simp_all

lemma sendDocument_answer:
  assumes "\<forall>w b. http_request env w b = Response (STATUS_CODES_OK cfg) answer"
    and "JSON_parse env answer = Inr parsed"
  shows "fst (priv_sendDocument cfg env this d) = Resolved parsed"
  using assms by (simp add: priv_sendDocument_def priv_post_def Let_def)

lemma initialize_then_result:
  assumes "get_prop parsed ''client_token'' = Inr tok"
    and "get_prop parsed ''lease_duration'' = Inr ld"
  shows "\<exists>this''. initialize_then env this' parsed = Inr this'' \<and>
           token this'' = tok \<and>
           data this'' = JObj [(''lease_id'', tok), (''lease_duration'', ld),
                               (''data'', JObj [(''token'', tok)])]"
proof -
  obtain et where et: "get_prop parsed ''expiration_time'' = Inr et"
    using get_prop_other [OF assms(1)] by blast
  obtain ct where ct: "get_prop parsed ''creation_time'' = Inr ct"
    using get_prop_other [OF assms(1)] by blast
  show ?thesis by (simp add: initialize_then_def assms et ct)
qed

lemma initialize_fresh_result:
  assumes "\<not> truthy (data this)"
    and "fst (priv_getDocument env this) = Resolved d"
    and "\<forall>w b. http_request env w b = Response (STATUS_CODES_OK cfg) answer"
    and "JSON_parse env answer = Inr parsed"
    and "get_prop parsed ''client_token'' = Inr tok"
    and "get_prop parsed ''lease_duration'' = Inr ld"
  shows "fst (initialize cfg env this) =
           Resolved (JObj [(''lease_id'', tok), (''lease_duration'', ld),
                           (''data'', JObj [(''token'', tok)])]) \<and>
         data (fst (snd (initialize cfg env this))) =
           JObj [(''lease_id'', tok), (''lease_duration'', ld),
                 (''data'', JObj [(''token'', tok)])] \<and>
         token (fst (snd (initialize cfg env this))) = tok"
proof -
  obtain fx1 where g: "priv_getDocument env this = (Resolved d, fx1)"
    using assms(2) by (cases "priv_getDocument env this") simp
  obtain r this' fx2 where s: "priv_sendDocument cfg env this d = (r, this', fx2)"
    by (cases "priv_sendDocument cfg env this d") auto
  have r: "r = Resolved parsed"
    using sendDocument_answer [OF assms(3) assms(4), of this d] s by simp
  obtain this'' where t: "initialize_then env this' parsed = Inr this''"
      "token this'' = tok"
      "data this'' = JObj [(''lease_id'', tok), (''lease_duration'', ld),
                           (''data'', JObj [(''token'', tok)])]"
    using initialize_then_result [OF assms(5) assms(6)] by blast
  show ?thesis using assms(1) g s r t by (simp add: initialize_def)
qed

text \<open>
  C6. With cached data, \<^verbatim>\<open>initialize\<close> resolves with it, makes no call to the outside
  and changes nothing. \<^verbatim>\<open>invalidate\<close> clears the cache, and the next \<^verbatim>\<open>initialize\<close>
  takes the acquisition path: it requests the three metadata endpoints and, when they
  answer, posts the attestation built from their answers; when Warden answers OK with a
  body that parses to an object, it resolves with the lease built from that answer
  (\<^verbatim>\<open>lease_id\<close>, \<^verbatim>\<open>lease_duration\<close>, \<^verbatim>\<open>data.token\<close>), caches it and holds the new
  token.
\<close>

theorem initialize_cache_and_invalidate:
  "(truthy (data this) \<longrightarrow> initialize cfg env this = (Resolved (data this), this, [])) \<and>
   data (invalidate this) = JNull \<and>
   take 3 (snd (snd (initialize cfg env (invalidate this)))) =
     map (MetadataRequest (priv_metadata this)) METADATA_ENDPOINTS \<and>
   (\<forall>d. fst (priv_getDocument env this) = Resolved d \<longrightarrow>
      map Some (posted_bodies (snd (snd (initialize cfg env (invalidate this))))) =
        [JSON_stringify (JObj [(''document'', index d 0),
                               (''signature'', JStr (PKCS7_envelope (ToString (index d 2))))])]) \<and>
   (\<forall>d answer parsed tok ld.
      fst (priv_getDocument env this) = Resolved d \<and>
      (\<forall>w b. http_request env w b = Response (STATUS_CODES_OK cfg) answer) \<and>
      JSON_parse env answer = Inr parsed \<and>
      get_prop parsed ''client_token'' = Inr tok \<and>
      get_prop parsed ''lease_duration'' = Inr ld \<longrightarrow>
      fst (initialize cfg env (invalidate this)) =
        Resolved (JObj [(''lease_id'', tok), (''lease_duration'', ld),
                        (''data'', JObj [(''token'', tok)])]) \<and>
      data (fst (snd (initialize cfg env (invalidate this)))) =
        JObj [(''lease_id'', tok), (''lease_duration'', ld),
              (''data'', JObj [(''token'', tok)])] \<and>
      token (fst (snd (initialize cfg env (invalidate this)))) = tok)"
proof -
  have n: "\<not> truthy (data (invalidate this))" by (simp add: invalidate_def)
  note fx = initialize_fresh_effects [OF n, of cfg env]
  have first: "take 3 (snd (snd (initialize cfg env (invalidate this)))) =
     map (MetadataRequest (priv_metadata this)) METADATA_ENDPOINTS"
    unfolding fx by (simp add: METADATA_ENDPOINTS_def invalidate_fields)
  have post: "map Some (posted_bodies (snd (snd (initialize cfg env (invalidate this))))) =
        [JSON_stringify (JObj [(''document'', index d 0),
                               (''signature'', JStr (PKCS7_envelope (ToString (index d 2))))])]"
    if "fst (priv_getDocument env this) = Resolved d" for d
  proof -
    have "Promise_all (map (metadata_request env (priv_metadata (invalidate this)))
            METADATA_ENDPOINTS) = Resolved d"
      using that by (simp add: priv_getDocument_def invalidate_fields)
    then show ?thesis
      unfolding fx by (simp add: posted_bodies_requests sendDocument_bodies)
  qed
  have fresh: "fst (initialize cfg env (invalidate this)) =
        Resolved (JObj [(''lease_id'', tok), (''lease_duration'', ld),
                        (''data'', JObj [(''token'', tok)])]) \<and>
      data (fst (snd (initialize cfg env (invalidate this)))) =
        JObj [(''lease_id'', tok), (''lease_duration'', ld),
              (''data'', JObj [(''token'', tok)])] \<and>
      token (fst (snd (initialize cfg env (invalidate this)))) = tok"
    if "fst (priv_getDocument env this) = Resolved d"
      and "\<forall>w b. http_request env w b = Response (STATUS_CODES_OK cfg) answer"
      and "JSON_parse env answer = Inr parsed"
      and "get_prop parsed ''client_token'' = Inr tok"
      and "get_prop parsed ''lease_duration'' = Inr ld"
    for d answer parsed tok ld
  proof -
    have g: "fst (priv_getDocument env (invalidate this)) = Resolved d"
      using that(1) by (simp add: getDocument_invalidate)
    show ?thesis by (rule initialize_fresh_result [OF n g that(2) that(3) that(4) that(5)])
  qed
  have cached: "truthy (data this) \<longrightarrow> initialize cfg env this = (Resolved (data this), this, [])"
    by (simp add: initialize_cached)
  have cleared: "data (invalidate this) = JNull" by (simp add: invalidate_fields)
  show ?thesis using cached cleared first post fresh by blast
qed

lemma renewed0_getDocument:
  "fst (priv_getDocument env_ok renewed0) = Resolved [JStr ''DOC'', JStr ''SIG'', JStr ''P7'']"
  by (simp add: priv_getDocument_def env_ok_def METADATA_ENDPOINTS_def)

theorem initialize_cache_and_invalidate_witness:
  "truthy (data renewed0) \<and>
   initialize cfg0 env_ok renewed0 = (Resolved (data renewed0), renewed0, []) \<and>
   data renewed0 = JObj [(''lease_duration'', JNum 600), (''data'', JObj [(''token'', JStr ''tok-1'')])] \<and>
   fst (priv_getDocument env_ok renewed0) = Resolved [JStr ''DOC'', JStr ''SIG'', JStr ''P7''] \<and>
   map Some (posted_bodies (snd (snd (initialize cfg0 env_ok (invalidate renewed0))))) =
     [JSON_stringify (JObj [(''document'', JStr ''DOC''),
                            (''signature'', JStr (PKCS7_envelope ''P7''))])] \<and>
   (\<forall>w b. http_request env_ok w b = Response (STATUS_CODES_OK cfg0) ''ANSWER'') \<and>
   JSON_parse env_ok ''ANSWER'' = Inr warden_answer \<and>
   get_prop warden_answer ''client_token'' = Inr (JStr ''tok-1'') \<and>
   get_prop warden_answer ''lease_duration'' = Inr (JNum 300) \<and>
   fst (initialize cfg0 env_ok (invalidate renewed0)) =
     Resolved (JObj [(''lease_id'', JStr ''tok-1''), (''lease_duration'', JNum 300),
                     (''data'', JObj [(''token'', JStr ''tok-1'')])]) \<and>
   data (fst (snd (initialize cfg0 env_ok (invalidate renewed0)))) =
     JObj [(''lease_id'', JStr ''tok-1''), (''lease_duration'', JNum 300),
           (''data'', JObj [(''token'', JStr ''tok-1'')])]"
proof -
  note th = initialize_cache_and_invalidate [where this = renewed0 and cfg = cfg0 and env = env_ok]
  have a: "truthy (data renewed0)" by (simp add: renewed0_def)
  have a': "data renewed0 =
      JObj [(''lease_duration'', JNum 600), (''data'', JObj [(''token'', JStr ''tok-1'')])]"
    by (simp add: renewed0_def)
  have b: "initialize cfg0 env_ok renewed0 = (Resolved (data renewed0), renewed0, [])"
    using th [THEN conjunct1] a by blast
  have c: "map Some (posted_bodies (snd (snd (initialize cfg0 env_ok (invalidate renewed0))))) =
     [JSON_stringify (JObj [(''document'', JStr ''DOC''),
                            (''signature'', JStr (PKCS7_envelope ''P7''))])]"
    using th [THEN conjunct2, THEN conjunct2, THEN conjunct2, THEN conjunct1] renewed0_getDocument
    by (simp add: index_def)
  have h1: "\<forall>w b. http_request env_ok w b = Response (STATUS_CODES_OK cfg0) ''ANSWER''"
    by (simp add: env_ok_def cfg0_def)
  have h2: "JSON_parse env_ok ''ANSWER'' = Inr warden_answer" by (simp add: env_ok_def)
  have h3: "get_prop warden_answer ''client_token'' = Inr (JStr ''tok-1'')"
    by (simp add: warden_answer_def)
  have h4: "get_prop warden_answer ''lease_duration'' = Inr (JNum 300)"
    by (simp add: warden_answer_def)
  have d: "fst (initialize cfg0 env_ok (invalidate renewed0)) =
     Resolved (JObj [(''lease_id'', JStr ''tok-1''), (''lease_duration'', JNum 300),
                     (''data'', JObj [(''token'', JStr ''tok-1'')])]) \<and>
   data (fst (snd (initialize cfg0 env_ok (invalidate renewed0)))) =
     JObj [(''lease_id'', JStr ''tok-1''), (''lease_duration'', JNum 300),
           (''data'', JObj [(''token'', JStr ''tok-1'')])]"
    using th [THEN conjunct2, THEN conjunct2, THEN conjunct2, THEN conjunct2]
      renewed0_getDocument h1 h2 h3 h4 by blast
  show ?thesis using a a' b c d renewed0_getDocument h1 h2 h3 h4 by blast
qed

subsection \<open>The expiration and creation times\<close>

lemma initialize_cached_frame:
  "truthy (data this) \<Longrightarrow> fst (snd (initialize cfg env this)) = this"
  by (simp add: initialize_def)

lemma run_renewals_frame:
  "list_all renew_or_invalidate cs \<Longrightarrow>
     expiration_time (run cfg cs this) = expiration_time this \<and>
     creation_time (run cfg cs this) = creation_time this"
proof (induction cs arbitrary: this)
  case Nil
  then show ?case by simp
next
  case (Cons c cs)
  show ?case
  proof (cases c)
    case (Initialize env)
    with Cons.prems show ?thesis by simp
  next
    case (Renew env)
    obtain r this' fx where r: "renew cfg env this = (r, this', fx)"
      by (cases "renew cfg env this") auto
    from renew_frame [OF r] Cons.IH [of this'] Cons.prems Renew r show ?thesis by simp
  next
    case Invalidate
    with Cons.IH [of "invalidate this"] Cons.prems show ?thesis by (simp add: invalidate_def)
  qed
qed

text \<open>
  C9. \<^verbatim>\<open>renew\<close> (whatever the store answers) and \<^verbatim>\<open>invalidate\<close> leave
  \<^verbatim>\<open>expiration_time\<close> and \<^verbatim>\<open>creation_time\<close> as they are; so does an
  \<^verbatim>\<open>initialize\<close> that rejects or that answers from the cache. Across any sequence of
  renewals and invalidations the two fields keep the values of the last acquisition.
\<close>

theorem expiration_written_by_initialize_only:
  "expiration_time (fst (snd (renew cfg env this))) = expiration_time this \<and>
   creation_time (fst (snd (renew cfg env this))) = creation_time this \<and>
   expiration_time (invalidate this) = expiration_time this \<and>
   creation_time (invalidate this) = creation_time this \<and>
   (\<forall>e. fst (initialize cfg env this) = Rejected e \<longrightarrow>
      expiration_time (fst (snd (initialize cfg env this))) = expiration_time this \<and>
      creation_time (fst (snd (initialize cfg env this))) = creation_time this) \<and>
   (truthy (data this) \<longrightarrow> fst (snd (initialize cfg env this)) = this) \<and>
   (list_all renew_or_invalidate cs \<longrightarrow>
      expiration_time (run cfg cs this) = expiration_time this \<and>
      creation_time (run cfg cs this) = creation_time this)"
proof -
  obtain r this' fx where r: "renew cfg env this = (r, this', fx)"
    by (cases "renew cfg env this") auto
  have a: "expiration_time (fst (snd (renew cfg env this))) = expiration_time this \<and>
           creation_time (fst (snd (renew cfg env this))) = creation_time this"
    using renew_frame [OF r] r by simp
  have b: "expiration_time (fst (snd (initialize cfg env this))) = expiration_time this \<and>
      creation_time (fst (snd (initialize cfg env this))) = creation_time this"
    if "fst (initialize cfg env this) = Rejected e" for e
  proof -
    obtain q that' gx where q: "initialize cfg env this = (q, that', gx)"
      by (cases "initialize cfg env this") auto
    with that have "initialize cfg env this = (Rejected e, that', gx)" by simp
    from initialize_rejected_frame [OF this] q show ?thesis by simp
  qed
  show ?thesis
    using a b run_renewals_frame [of cs cfg this]
    by (simp add: invalidate_def initialize_cached_frame)
qed

lemma renew_ok_ready0:
  "renew cfg0 env_ok ready0 =
     (Resolved (JObj [(''lease_duration'', JNum 600), (''data'', JObj [(''token'', JStr ''tok-1'')])]),
      ready0\<lparr>data := JObj [(''lease_duration'', JNum 600), (''data'', JObj [(''token'', JStr ''tok-1'')])]\<rparr>,
      [TokenRenew (priv_client ready0) (JStr ''tok-1'') 60])"
  by (simp add: renew_def renew_then_def env_ok_def ready0_def cfg0_def)

theorem expiration_written_by_initialize_only_witness:
  "fst (initialize cfg0 env_no_metadata fresh0) = Rejected (Error ''Error'' ''connect ETIMEDOUT'') \<and>
   expiration_time (fst (snd (initialize cfg0 env_no_metadata fresh0))) = expiration_time fresh0 \<and>
   truthy (data ready0) \<and>
   fst (snd (initialize cfg0 env_ok ready0)) = ready0 \<and>
   list_all renew_or_invalidate [Renew env_ok, Renew env_network_error, Invalidate, Renew env_status_error] \<and>
   expiration_time (run cfg0 [Renew env_ok, Renew env_network_error, Invalidate, Renew env_status_error] ready0)
     = JNum 2000 \<and>
   creation_time (run cfg0 [Renew env_ok, Renew env_network_error, Invalidate, Renew env_status_error] ready0)
     = JNum 1000"
proof -
  have a: "fst (initialize cfg0 env_no_metadata fresh0) = Rejected (Error ''Error'' ''connect ETIMEDOUT'')"
    by (simp add: initialize_no_metadata)
  have b: "truthy (data ready0)" by (simp add: ready0_def)
  have c: "list_all renew_or_invalidate
             [Renew env_ok, Renew env_network_error, Invalidate, Renew env_status_error]"
    by simp
  have d: "expiration_time ready0 = JNum 2000 \<and> creation_time ready0 = JNum 1000"
    by (simp add: ready0_def)
  show ?thesis
    using a b c d
      expiration_written_by_initialize_only [of cfg0 env_no_metadata fresh0 "[]"]
      expiration_written_by_initialize_only [of cfg0 env_ok ready0
        "[Renew env_ok, Renew env_network_error, Invalidate, Renew env_status_error]"]
    by simp
qed

subsection \<open>Construction\<close>

text \<open>
  C8, as amended. The constructor of the token provider throws when the secret or the token
  is \<^verbatim>\<open>null\<close> or \<^verbatim>\<open>undefined\<close>. Otherwise: Warden's method is POST and its path is
  the configured one, whatever the options; Warden's host and port are the configured ones
  without \<^verbatim>\<open>options.warden\<close>, and the ones of \<^verbatim>\<open>options.warden\<close> when it gives
  both; the Vault client is built for the endpoint made of the configured TLS flag, host
  and port without \<^verbatim>\<open>options.vault\<close>, and with it is \<^verbatim>\<open>options.vault.client\<close>
  when there is one, or a client for \<^verbatim>\<open>options.vault.endpoint\<close> when that is given.
\<close>

theorem TokenProvider_new_connection:
  "(secret = JNull \<or> secret = JUndefined \<longrightarrow>
      TokenProvider_new cfg md secret tok options =
        Inl (Error ''IllegalValueError'' ''secret argument is required'')) \<and>
   (secret \<noteq> JNull \<and> secret \<noteq> JUndefined \<and> (tok = JNull \<or> tok = JUndefined) \<longrightarrow>
      TokenProvider_new cfg md secret tok options =
        Inl (Error ''IllegalValueError'' ''token argument is required'')) \<and>
   (secret \<noteq> JNull \<and> secret \<noteq> JUndefined \<and> tok \<noteq> JNull \<and> tok \<noteq> JUndefined \<longrightarrow>
      (\<exists>p. TokenProvider_new cfg md secret tok options = Inr p \<and>
         request_method (priv_warden p) = ''POST'' \<and>
         path (priv_warden p) = JStr (DEFAULT_WARDEN_PATH cfg) \<and>
         (Option.bind options opt_warden = None \<longrightarrow>
            hostname (priv_warden p) = JStr (DEFAULT_WARDEN_HOST cfg) \<and>
            port (priv_warden p) = JNum (int (DEFAULT_WARDEN_PORT cfg))) \<and>
         (\<forall>wo. Option.bind options opt_warden = Some wo \<and>
               opt_host wo \<noteq> JUndefined \<and> opt_host wo \<noteq> JNull \<and>
               opt_port wo \<noteq> JUndefined \<and> opt_port wo \<noteq> JNull \<longrightarrow>
            hostname (priv_warden p) = opt_host wo \<and> port (priv_warden p) = opt_port wo) \<and>
         (Option.bind options opt_vault = None \<longrightarrow>
            priv_client p =
              \<lparr>endpoint = JStr ((if DEFAULT_VAULT_TLS cfg then ''https'' else ''http'') @
                                ''://'' @ DEFAULT_VAULT_HOST cfg @ '':'' @
                                show_nat (DEFAULT_VAULT_PORT cfg)),
               Vault_token = tok\<rparr>) \<and>
         (\<forall>vo c. Option.bind options opt_vault = Some vo \<and> opt_client vo = Some c \<longrightarrow>
            priv_client p = c) \<and>
         (\<forall>vo. Option.bind options opt_vault = Some vo \<and> opt_client vo = None \<and>
               opt_endpoint vo \<noteq> JUndefined \<and> opt_endpoint vo \<noteq> JNull \<longrightarrow>
            priv_client p = \<lparr>endpoint = opt_endpoint vo, Vault_token = tok\<rparr>)))"
  by (cases options)
     (auto simp: TokenProvider_new_def checkNotNull_def empty_options_def default_endpoint_def
        Let_def split: option.splits)

theorem TokenProvider_new_connection_witness:
  "TokenProvider_new cfg0 md0 JNull (JStr ''t'') (Some options_both) =
     Inl (Error ''IllegalValueError'' ''secret argument is required'') \<and>
   TokenProvider_new cfg0 md0 (JStr ''db/creds'') JUndefined (Some options_both) =
     Inl (Error ''IllegalValueError'' ''token argument is required'') \<and>
   map_sum id (\<lambda>p. (hostname (priv_warden p), port (priv_warden p), path (priv_warden p),
                     priv_client p))
     (TokenProvider_new cfg0 md0 (JStr ''db/creds'') (JStr ''t'') (Some options_both)) =
     Inr (JStr ''127.0.0.1'', JNum 8080, JStr ''/authenticate'',
          \<lparr>endpoint = JStr ''http://127.0.0.1:8200'', Vault_token = JStr ''t''\<rparr>) \<and>
   map_sum id (\<lambda>p. (hostname (priv_warden p), port (priv_warden p), path (priv_warden p),
                     priv_client p))
     (TokenProvider_new cfg0 md0 (JStr ''db/creds'') (JStr ''t'') None) =
     Inr (JStr ''warden'', JNum 8705, JStr ''/authenticate'',
          \<lparr>endpoint = JStr ''https://vault:8200'', Vault_token = JStr ''t''\<rparr>)"
proof -
  note c = TokenProvider_new_connection [where cfg = cfg0 and md = md0]
  have a: "TokenProvider_new cfg0 md0 JNull (JStr ''t'') (Some options_both) =
     Inl (Error ''IllegalValueError'' ''secret argument is required'')"
    using c [where secret = JNull and tok = "JStr ''t''" and options = "Some options_both",
        THEN conjunct1] by simp
  have b: "TokenProvider_new cfg0 md0 (JStr ''db/creds'') JUndefined (Some options_both) =
     Inl (Error ''IllegalValueError'' ''token argument is required'')"
    using c [where secret = "JStr ''db/creds''" and tok = JUndefined
        and options = "Some options_both", THEN conjunct2, THEN conjunct1] by simp
  have d: "map_sum id (\<lambda>p. (hostname (priv_warden p), port (priv_warden p), path (priv_warden p),
                     priv_client p))
     (TokenProvider_new cfg0 md0 (JStr ''db/creds'') (JStr ''t'') (Some options_both)) =
     Inr (JStr ''127.0.0.1'', JNum 8080, JStr ''/authenticate'',
          \<lparr>endpoint = JStr ''http://127.0.0.1:8200'', Vault_token = JStr ''t''\<rparr>)"
    using c [where secret = "JStr ''db/creds''" and tok = "JStr ''t''"
        and options = "Some options_both", THEN conjunct2, THEN conjunct2]
    by (auto simp: options_both_def cfg0_def)
  have e: "map_sum id (\<lambda>p. (hostname (priv_warden p), port (priv_warden p), path (priv_warden p),
                     priv_client p))
     (TokenProvider_new cfg0 md0 (JStr ''db/creds'') (JStr ''t'') None) =
     Inr (JStr ''warden'', JNum 8705, JStr ''/authenticate'',
          \<lparr>endpoint = JStr ''https://vault:8200'', Vault_token = JStr ''t''\<rparr>)"
    using c [where secret = "JStr ''db/creds''" and tok = "JStr ''t''"
        and options = None, THEN conjunct2, THEN conjunct2]
    by (auto simp: cfg0_def show_nat_8200)
  show ?thesis using a b d e by simp
qed

text \<open>
  C8 as stated fails: with options that give Warden's host and a request path and no port,
  the port is not left at its configured value and the path is not the one given.
\<close>

theorem warden_options_counterexample:
  "map_sum id (\<lambda>p. (hostname (priv_warden p), port (priv_warden p), path (priv_warden p)))
     (TokenProvider_new cfg0 md0 (JStr ''db/creds'') (JStr ''t'') (Some options_host_path)) =
     Inr (JStr ''127.0.0.1'', JUndefined, JStr ''/authenticate'') \<and>
   JUndefined \<noteq> JNum (int (DEFAULT_WARDEN_PORT cfg0)) \<and>
   map_option opt_path (opt_warden options_host_path) = Some (JStr ''/v2/authenticate'') \<and>
   JStr ''/authenticate'' \<noteq> JStr ''/v2/authenticate''"
  by (simp add: TokenProvider_new_def checkNotNull_def options_host_path_def cfg0_def Let_def)

section \<open>Properties of the static secret provider\<close>

lemma resolve_SecretProvider: "resolve (SecretProvider G) m = resolve G m"
  by (simp add: SecretProvider_def)

lemma invoke_all_SecretProvider: "invoke_all (SecretProvider G) s ms = invoke_all G s ms"
  by (induction ms arbitrary: s) (simp_all add: resolve_SecretProvider split: option.splits prod.splits)

text \<open>
  C10. \<^verbatim>\<open>new SecretProvider(p, t)\<close> throws or yields the fields that
  \<^verbatim>\<open>new GenericProvider('secret/' + p, t)\<close> throws or yields; the class declares no
  method of its own, every method resolves to GenericProvider's, and any sequence of
  method calls gives the same results and the same fields on both.
\<close>

theorem SecretProvider_is_GenericProvider:
  "map_sum id fields_of (new (SecretProvider G) p t) =
     map_sum id fields_of (new G (JStr (''secret/'' @ ToString p)) t) \<and>
   own_methods (SecretProvider G) = Map.empty \<and>
   resolve (SecretProvider G) m = resolve G m \<and>
   invoke_all (SecretProvider G) s ms = invoke_all G s ms"
  by (simp add: resolve_SecretProvider invoke_all_SecretProvider)
     (simp add: new_def SecretProvider_def split: sum.splits)

theorem SecretProvider_is_GenericProvider_witness:
  "map_sum id fields_of (new (SecretProvider Generic0) (JStr ''db/creds'') (JStr ''t'')) =
     Inr (JStr ''secret/db/creds'', JStr ''t'') \<and>
   invoke_all (SecretProvider Generic0) (JStr ''secret/db/creds'', JStr ''t'') [''initialize'', ''renew''] =
     ([Some (JStr ''secret/db/creds''), None], (JStr ''secret/db/creds'', JStr ''t''))"
proof -
  note eq = SecretProvider_is_GenericProvider [where G = Generic0 and p = "JStr ''db/creds''"
      and t = "JStr ''t''" and m = "''initialize''"
      and s = "(JStr ''secret/db/creds'', JStr ''t'')" and ms = "[''initialize'', ''renew'']"]
  have a: "map_sum id fields_of (new Generic0 (JStr ''secret/db/creds'') (JStr ''t'')) =
             Inr (JStr ''secret/db/creds'', JStr ''t'')"
    by (simp add: new_def Generic0_def)
  have b: "invoke_all Generic0 (JStr ''secret/db/creds'', JStr ''t'') [''initialize'', ''renew''] =
             ([Some (JStr ''secret/db/creds''), None], (JStr ''secret/db/creds'', JStr ''t''))"
    by (simp add: Generic0_def)
  have e1: "map_sum id fields_of (new (SecretProvider Generic0) (JStr ''db/creds'') (JStr ''t'')) =
              map_sum id fields_of (new Generic0 (JStr ''secret/db/creds'') (JStr ''t''))"
    using eq [THEN conjunct1] by simp
  have e2: "invoke_all (SecretProvider Generic0) (JStr ''secret/db/creds'', JStr ''t'')
                [''initialize'', ''renew''] =
              invoke_all Generic0 (JStr ''secret/db/creds'', JStr ''t'') [''initialize'', ''renew'']"
    by (rule eq [THEN conjunct2, THEN conjunct2, THEN conjunct2])
  show ?thesis unfolding e1 e2 a b by simp
qed

text \<open>
  The constructor turns its path into a string before GenericProvider sees it: a
  \<^verbatim>\<open>null\<close> path arrives as \<^verbatim>\<open>secret/null\<close>, which a parent that refuses a
  \<^verbatim>\<open>null\<close> path accepts.
\<close>

lemma SecretProvider_null_path:
  "isl (new CheckedGeneric JNull (JStr ''t'')) \<and>
   map_sum id fields_of (new (SecretProvider CheckedGeneric) JNull (JStr ''t'')) =
     Inr (JStr ''secret/null'', JStr ''t'')"
  by (simp add: new_def SecretProvider_def CheckedGeneric_def checkNotNull_def)

section \<open>Properties of the lease manager\<close>

subsection \<open>The managers of the tests\<close>

lemma FailToRenew_initialize:
  "lm_initialize FailToRenewProvider opts0 (LeaseManager_new FailToRenewProvider ()) =
     (Resolved (Some ''SECRET''), FailToRenew_ready,
      [CallInitialize, Emit ''ready'', SetTimeout 0])"
  by (simp add: lm_initialize_def LeaseManager_new_def FailToRenewProvider_def SECRET_def
      arm_timer_def renewal_delay_def opts0_def FailToRenew_ready_def Let_def)

lemma CountingRenew_initialize:
  "lm_initialize CountingRenewProvider opts0 (LeaseManager_new CountingRenewProvider count) =
     (Resolved (Some ''SECRET''), CountingRenew_ready count,
      [CallInitialize, Emit ''ready'', SetTimeout 0])"
  by (simp add: lm_initialize_def LeaseManager_new_def CountingRenewProvider_def SECRET_def
      arm_timer_def renewal_delay_def opts0_def CountingRenew_ready_def Let_def)

text \<open>The counting provider built with 0 renews at once: the lease duration becomes 2, the
  data stays, a timer of 1000 ms replaces the one of 0 ms. Built with 2, its first renewal
  rejects: the manager keeps data and lease duration and is in ERROR without a timer.\<close>

lemma CountingRenew_renewed:
  "renewal_cycle CountingRenewProvider opts0 before_expiration 0 (CountingRenew_ready 0) =
     ((CountingRenew_ready 0)\<lparr>lease_duration := 2, priv_timer := Some (Timeout 1000),
                              priv_timeout := Some 1000\<rparr>,
      [CallRenew, Emit ''renewed'', ClearTimeout (Timeout 0), SetTimeout 1000])"
  by (simp add: renewal_cycle_def CountingRenewProvider_def CountingRenew_ready_def
      arm_timer_def renewal_delay_def opts0_def Let_def)

lemma CountingRenew_error:
  "renewal_cycle CountingRenewProvider opts0 before_expiration 0 (CountingRenew_ready 2) =
     ((CountingRenew_ready 2)\<lparr>provider := 1, status := ERROR,
                              error := Some (Error ''Error'' ''Need 1 more calls to renew''),
                              priv_timer := None, priv_timeout := None\<rparr>,
      [CallRenew, ClearTimeout (Timeout 0), Emit ''error''])"
  by (simp add: renewal_cycle_def CountingRenewProvider_def CountingRenew_ready_def
      show_int_def show_nat.simps digit_def)

lemma ChangingTimeout_initialize:
  "lm_initialize ChangingTimeoutProvider opts0 (LeaseManager_new ChangingTimeoutProvider False) =
     (Resolved (Some ''SECRET''), ChangingTimeout_ready,
      [CallInitialize, Emit ''ready'', SetTimeout 0])"
  by (simp add: lm_initialize_def LeaseManager_new_def ChangingTimeoutProvider_def SECRET_def
      arm_timer_def renewal_delay_def opts0_def ChangingTimeout_ready_def Let_def)

lemma Expiring_initialize:
  "lm_initialize ExpiringProvider_ops opts0
       (LeaseManager_new ExpiringProvider_ops (ExpiringProvider_new today0)) =
     (Resolved (Some ''SECRET''), Expiring_ready,
      [CallInitialize, Emit ''ready'', SetTimeout 1000])"
  by (simp add: lm_initialize_def LeaseManager_new_def ExpiringProvider_ops_def
      ExpiringProvider_new_def ExpiringProvider_initialize_def
      arm_timer_def renewal_delay_def opts0_def Expiring_ready_def Let_def)

subsection \<open>A renewal that fails\<close>

text \<open>
  C1. When the renewal cycle of a READY manager calls the provider's \<^verbatim>\<open>renew\<close> and it
  rejects: the status is ERROR, the error is the rejection, data and lease duration are
  what they were, no timer is armed and none is set; and any later run of the cycle on the
  resulting manager changes nothing and makes no call, to the provider or otherwise.
\<close>

theorem renewal_failure:
  assumes "status m = READY" and "renewable m"
    and "\<not> (expires m \<and> at_ceiling now (renew_increment opts) (p_expiration_time ops (provider m)))"
    and "p_renew ops (provider m) = (Inl e, p')"
  shows "status (fst (renewal_cycle ops opts at_ceiling now m)) = ERROR \<and>
         error (fst (renewal_cycle ops opts at_ceiling now m)) = Some e \<and>
         lm_data (fst (renewal_cycle ops opts at_ceiling now m)) = lm_data m \<and>
         lease_duration (fst (renewal_cycle ops opts at_ceiling now m)) = lease_duration m \<and>
         priv_timer (fst (renewal_cycle ops opts at_ceiling now m)) = None \<and>
         priv_timeout (fst (renewal_cycle ops opts at_ceiling now m)) = None \<and>
         SetTimeout d \<notin> set (snd (renewal_cycle ops opts at_ceiling now m)) \<and>
         renewal_cycle ops opts at_ceiling' now' (fst (renewal_cycle ops opts at_ceiling now m)) =
           (fst (renewal_cycle ops opts at_ceiling now m), [])"
  using assms by (auto simp: renewal_cycle_def split: option.splits)

theorem renewal_failure_witness:
  "status FailToRenew_ready = READY \<and> renewable FailToRenew_ready \<and>
   \<not> (expires FailToRenew_ready \<and>
      before_expiration 0 (renew_increment opts0)
        (p_expiration_time FailToRenewProvider (provider FailToRenew_ready))) \<and>
   p_renew FailToRenewProvider (provider FailToRenew_ready) =
     (Inl (Error ''Error'' ''Failed to renew.''), ()) \<and>
   renewal_cycle FailToRenewProvider opts0 before_expiration 0 FailToRenew_ready =
     (FailToRenew_ready\<lparr>status := ERROR, error := Some (Error ''Error'' ''Failed to renew.''),
                         priv_timer := None, priv_timeout := None\<rparr>,
      [CallRenew, ClearTimeout (Timeout 0), Emit ''error'']) \<and>
   renewal_cycle FailToRenewProvider opts0 before_expiration 1
     (fst (renewal_cycle FailToRenewProvider opts0 before_expiration 0 FailToRenew_ready)) =
     (fst (renewal_cycle FailToRenewProvider opts0 before_expiration 0 FailToRenew_ready), [])"
proof -
  have a: "status FailToRenew_ready = READY" by (simp add: FailToRenew_ready_def)
  have b: "renewable FailToRenew_ready" by (simp add: FailToRenew_ready_def)
  have c: "\<not> (expires FailToRenew_ready \<and>
      before_expiration 0 (renew_increment opts0)
        (p_expiration_time FailToRenewProvider (provider FailToRenew_ready)))"
    by (simp add: FailToRenew_ready_def)
  have d: "p_renew FailToRenewProvider (provider FailToRenew_ready) =
     (Inl (Error ''Error'' ''Failed to renew.''), ())"
    by (simp add: FailToRenewProvider_def)
  have e: "renewal_cycle FailToRenewProvider opts0 before_expiration 0 FailToRenew_ready =
     (FailToRenew_ready\<lparr>status := ERROR, error := Some (Error ''Error'' ''Failed to renew.''),
                         priv_timer := None, priv_timeout := None\<rparr>,
      [CallRenew, ClearTimeout (Timeout 0), Emit ''error''])"
    by (simp add: renewal_cycle_def FailToRenew_ready_def FailToRenewProvider_def)
  show ?thesis
    using a b c d e
      renewal_failure [where at_ceiling = before_expiration and now = 0 and opts = opts0
          and ops = FailToRenewProvider and m = FailToRenew_ready
          and at_ceiling' = before_expiration and now' = 1, OF a b c d]
    by simp
qed

subsection \<open>A value at its expiration\<close>

text \<open>
  C2. When the renewal cycle runs on a READY, renewable manager whose provider expires and
  whose expiration is at the ceiling for the configured increment: the provider's
  \<^verbatim>\<open>renew\<close> is not called; data, lease duration and error are cleared, the timer is
  cancelled and discarded, the status is PENDING, the provider's \<^verbatim>\<open>invalidate\<close> is
  called and \<^verbatim>\<open>invalidate\<close> is emitted. The \<^verbatim>\<open>invalidate\<close> of the expiring provider
  of the tests and of the token provider clear the provider's cached data.
\<close>

theorem renewal_at_ceiling:
  assumes "status m = READY" and "renewable m" and "expires m"
    and "at_ceiling now (renew_increment opts) (p_expiration_time ops (provider m))"
  shows "renewal_cycle ops opts at_ceiling now m =
           (m\<lparr>lm_data := None, lease_duration := 0, error := None,
              priv_timer := None, priv_timeout := None, status := PENDING,
              provider := p_invalidate ops (provider m)\<rparr>,
            (case priv_timer m of None \<Rightarrow> [] | Some t \<Rightarrow> [ClearTimeout t]) @
            [CallInvalidate, Emit ''invalidate'']) \<and>
         CallRenew \<notin> set (snd (renewal_cycle ops opts at_ceiling now m)) \<and>
         ep_data (p_invalidate ExpiringProvider_ops q) = None \<and>
         data (invalidate this) = JNull"
  using assms
  by (auto simp: renewal_cycle_def lm_invalidate_def ExpiringProvider_ops_def
        ExpiringProvider_invalidate_def invalidate_def split: option.splits)

theorem renewal_at_ceiling_witness:
  "status Expiring_ready = READY \<and> renewable Expiring_ready \<and> expires Expiring_ready \<and>
   before_expiration 0 (renew_increment opts0)
     (p_expiration_time ExpiringProvider_ops (provider Expiring_ready)) \<and>
   renewal_cycle ExpiringProvider_ops opts0 before_expiration 0 Expiring_ready =
     (\<lparr>provider = (ExpiringProvider_new today0)\<lparr>ep_data := None\<rparr>, status = PENDING,
       lm_data = None, lease_duration = 0, renewable = True, expires = True, error = None,
       priv_timer = None, priv_timeout = None\<rparr>,
      [ClearTimeout (Timeout 1000), CallInvalidate, Emit ''invalidate''])"
proof -
  have a: "status Expiring_ready = READY" by (simp add: Expiring_ready_def)
  have b: "renewable Expiring_ready" by (simp add: Expiring_ready_def)
  have c: "expires Expiring_ready" by (simp add: Expiring_ready_def)
  have d: "before_expiration 0 (renew_increment opts0)
     (p_expiration_time ExpiringProvider_ops (provider Expiring_ready))"
    by (simp add: before_expiration_def ExpiringProvider_ops_def Expiring_ready_def
        ExpiringProvider_new_def)
  note cycle = renewal_at_ceiling [where at_ceiling = before_expiration and now = 0
      and opts = opts0 and ops = ExpiringProvider_ops and m = Expiring_ready
      and q = "ExpiringProvider_new today0" and this = ready0, OF a b c d]
  have e: "renewal_cycle ExpiringProvider_ops opts0 before_expiration 0 Expiring_ready =
     (\<lparr>provider = (ExpiringProvider_new today0)\<lparr>ep_data := None\<rparr>, status = PENDING,
       lm_data = None, lease_duration = 0, renewable = True, expires = True, error = None,
       priv_timer = None, priv_timeout = None\<rparr>,
      [ClearTimeout (Timeout 1000), CallInvalidate, Emit ''invalidate''])"
    using cycle [THEN conjunct1]
    by (simp add: Expiring_ready_def ExpiringProvider_ops_def ExpiringProvider_invalidate_def)
  show ?thesis using a b c d e by simp
qed

subsection \<open>The delay of the renewal timer\<close>

text \<open>
  C3. Without a configured delay, after an \<^verbatim>\<open>initialize\<close> that calls the provider and
  succeeds with a renewable value, and after a renewal that succeeds, the lease duration is
  the one the provider just reported and the timer now armed has the delay
  \<open>(lease_duration div 2) * 1000\<close> milliseconds; a timer armed before is cancelled
  first, then the new one is set.
\<close>

theorem renewal_timer_delay:
  "(status m \<noteq> READY \<and> p_initialize ops (provider m) = (Inr v, p') \<and>
    iv_renewable v \<noteq> Some False \<and> renew_delay opts = None \<longrightarrow>
      lease_duration (fst (snd (lm_initialize ops opts m))) = iv_lease_duration v \<and>
      priv_timeout (fst (snd (lm_initialize ops opts m))) = Some ((iv_lease_duration v div 2) * 1000) \<and>
      priv_timer (fst (snd (lm_initialize ops opts m))) =
        Some (Timeout ((iv_lease_duration v div 2) * 1000)) \<and>
      snd (snd (lm_initialize ops opts m)) =
        [CallInitialize, Emit ''ready''] @
        (case priv_timer m of None \<Rightarrow> [] | Some t \<Rightarrow> [ClearTimeout t]) @
        [SetTimeout ((iv_lease_duration v div 2) * 1000)]) \<and>
   (status m = READY \<and> renewable m \<and>
    \<not> (expires m \<and> at_ceiling now (renew_increment opts) (p_expiration_time ops (provider m))) \<and>
    p_renew ops (provider m) = (Inr w, p'') \<and> renew_delay opts = None \<longrightarrow>
      lease_duration (fst (renewal_cycle ops opts at_ceiling now m)) = rv_lease_duration w \<and>
      priv_timeout (fst (renewal_cycle ops opts at_ceiling now m)) =
        Some ((rv_lease_duration w div 2) * 1000) \<and>
      priv_timer (fst (renewal_cycle ops opts at_ceiling now m)) =
        Some (Timeout ((rv_lease_duration w div 2) * 1000)) \<and>
      snd (renewal_cycle ops opts at_ceiling now m) =
        [CallRenew, Emit ''renewed''] @
        (case priv_timer m of None \<Rightarrow> [] | Some t \<Rightarrow> [ClearTimeout t]) @
        [SetTimeout ((rv_lease_duration w div 2) * 1000)])"
  by (auto simp: lm_initialize_def renewal_cycle_def arm_timer_def renewal_delay_def Let_def
        split: option.splits)


theorem renewal_timer_delay_witness:
  "status (LeaseManager_new ChangingTimeoutProvider False) \<noteq> READY \<and>
   p_initialize ChangingTimeoutProvider False = (Inr SECRET, False) \<and>
   iv_renewable SECRET \<noteq> Some False \<and> renew_delay opts0 = None \<and>
   iv_lease_duration SECRET = 1 \<and>
   priv_timeout (fst (snd (lm_initialize ChangingTimeoutProvider opts0
       (LeaseManager_new ChangingTimeoutProvider False)))) = Some 0 \<and>
   status ChangingTimeout_ready = READY \<and> renewable ChangingTimeout_ready \<and>
   p_renew ChangingTimeoutProvider (provider ChangingTimeout_ready) =
     (Inr \<lparr>rv_data = Some ''SECRET'', rv_lease_duration = 2\<rparr>, True) \<and>
   lease_duration (fst (renewal_cycle ChangingTimeoutProvider opts0 before_expiration 0
       ChangingTimeout_ready)) = 2 \<and>
   priv_timer (fst (renewal_cycle ChangingTimeoutProvider opts0 before_expiration 0
       ChangingTimeout_ready)) = Some (Timeout 1000) \<and>
   snd (renewal_cycle ChangingTimeoutProvider opts0 before_expiration 0 ChangingTimeout_ready) =
     [CallRenew, Emit ''renewed'', ClearTimeout (Timeout 0), SetTimeout 1000]"
proof -
  have a: "status (LeaseManager_new ChangingTimeoutProvider False) \<noteq> READY \<and>
           provider (LeaseManager_new ChangingTimeoutProvider False) = False \<and>
           priv_timer (LeaseManager_new ChangingTimeoutProvider False) = None"
    by (simp add: LeaseManager_new_def)
  have b: "p_initialize ChangingTimeoutProvider False = (Inr SECRET, False)"
    by (simp add: ChangingTimeoutProvider_def)
  have c: "iv_renewable SECRET \<noteq> Some False \<and> iv_lease_duration SECRET = 1"
    by (simp add: SECRET_def)
  have d: "renew_delay opts0 = None" by (simp add: opts0_def)
  have e: "status ChangingTimeout_ready = READY \<and> renewable ChangingTimeout_ready \<and>
           \<not> expires ChangingTimeout_ready \<and> provider ChangingTimeout_ready = False \<and>
           priv_timer ChangingTimeout_ready = Some (Timeout 0)"
    by (simp add: ChangingTimeout_ready_def)
  have f: "p_renew ChangingTimeoutProvider False =
     (Inr \<lparr>rv_data = Some ''SECRET'', rv_lease_duration = 2\<rparr>, True)"
    by (simp add: ChangingTimeoutProvider_def)
  show ?thesis
    using a b c d e f
      renewal_timer_delay [where m = "LeaseManager_new ChangingTimeoutProvider False"
        and ops = ChangingTimeoutProvider and opts = opts0 and v = SECRET and p' = False]
      renewal_timer_delay [where m = ChangingTimeout_ready and ops = ChangingTimeoutProvider
        and opts = opts0 and at_ceiling = before_expiration and now = 0
        and w = "\<lparr>rv_data = Some ''SECRET'', rv_lease_duration = 2\<rparr>" and p'' = True]
    by simp
qed

end
